theory Spec2Isabelle
  imports Complex_Main "HOL-Library.Multiset"
begin

section \<open>Position session calculator (src/lib/position_calculator.ts)\<close>

text \<open>
  Modelling conventions.
  \<^item> A JavaScript \<open>number\<close> that carries a quantity, a price, a cost or a commission is a
    rational (\<open>rat\<close>): arithmetic is exact, and no \<open>NaN\<close> or infinity arises (the CSV
    loader replaces an unparsable number by 0). The source computes with IEEE doubles,
    which round: a sum such as 0.3 - 0.1 - 0.2 is not zero there. The model and the
    source agree wherever the tests on a running position (\<open>=== 0\<close>, its sign,
    \<open>< 0.01\<close>) have the same outcome on doubles as on exact numbers, as they do for
    whole-number quantities (\<open>wholeQuantities\<close>) and at the inputs of the scenarios
    below. A statement that depends on the outcome of such a test is made under that
    hypothesis or at such an input; the other statements hold whichever branch a test
    takes.
  \<^item> A timestamp is the instant, in milliseconds, that \<open>new Date(ts).getTime()\<close> yields
    for it (\<open>int\<close>); timestamps are taken to be valid dates of one fixed ISO format, so
    that the string comparison \<open>a.timestamp < b.timestamp\<close> is the comparison of instants.
  \<^item> Strings are ASCII: a character is a code unit below 128.
  \<^item> \<open>Array.prototype.sort\<close> is a stable sort by its comparator (ECMAScript 2019).
  \<^item> A \<open>Map\<close> iterates in insertion order of its keys: it is an association list.
  \<^item> The module \<open>./types\<close> is not part of the sources at hand: its functions
    \<open>formatSymbol\<close> and \<open>isBinanceSymbol\<close> are parameters (\<open>fmt\<close>, \<open>isBinanceSymbol\<close>) of
    the functions that call them; of its type \<open>Execution\<close> the fields that the calculator
    reads are kept, as the CSV loader fills them (the field \<open>text\<close> is \<open>etext\<close> here).
    The field \<open>side\<close> is a string: the loader casts whatever the file holds, the filter
    tests it for emptiness, and the loops compare it with \<open>'Buy'\<close>.
  \<^item> The inverse-contract calculator copies each execution into an \<open>ExecutionForCalc\<close>,
    which has the fields of an execution but \<open>execType\<close>; that field is not read after
    the filter, so the copy is the execution itself here.
  \<^item> Both calculators name their closures \<open>closeSession\<close> and \<open>resetSession\<close>; those
    of the hedge-mode calculator are \<open>closeSessionB\<close> and \<open>resetSessionB\<close> here. The
    closures' captured variables are the records \<open>InvState\<close> and \<open>HedgeState\<close>, and
    \<open>Out\<close> for the output array and the identifier counter.
\<close>

subsection \<open>Data model\<close>

record Execution =
  execID :: string
  orderID :: string
  symbol :: string
  side :: string
  lastQty :: rat
  lastPx :: rat
  execType :: string
  execCost :: rat
  execComm :: rat
  timestamp :: int
  etext :: string

record Trade =
  trId :: string
  datetime :: int
  trSymbol :: string
  trDisplaySymbol :: string
  trSide :: string
  price :: rat
  amount :: rat
  cost :: rat
  feeCost :: rat
  feeCurrency :: string
  trOrderID :: string
  trExecType :: string

datatype SessionSide = Long | Short

datatype SessionStatus = Closed | Open

record PositionSession =
  sid :: string
  sSymbol :: string
  sDisplaySymbol :: string
  sSide :: SessionSide
  openTime :: int
  closeTime :: "int option"
  durationMs :: int
  maxSize :: rat
  totalBought :: rat
  totalSold :: rat
  avgEntryPrice :: rat
  avgExitPrice :: rat
  realizedPnl :: rat
  totalFees :: rat
  netPnl :: rat
  tradeCount :: nat
  trades :: "Trade list"
  status :: SessionStatus

text \<open>The two variables that every \<open>closeSession\<close> closure shares: the output array and
  the counter of the session identifiers.\<close>

record Out =
  allSessions :: "PositionSession list"
  globalSessionId :: nat

subsection \<open>JavaScript helpers\<close>

text \<open>Template-literal rendering of a non-negative integer counter.\<close>

definition digitChar :: "nat \<Rightarrow> char" where
  "digitChar d = ''0123456789'' ! d"

function numberToString :: "nat \<Rightarrow> string" where
  "numberToString n =
     (if n < 10 then [digitChar n] else numberToString (n div 10) @ [digitChar (n mod 10)])"
  by pat_completeness auto
termination
  by (relation "measure id") auto

declare numberToString.simps [simp del]

text \<open>\<open>String.prototype.toLowerCase\<close> and \<open>toUpperCase\<close>, and the character classes
  \<open>\s\<close>, \<open>\d\<close> and \<open>\w\<close> of a regular expression.\<close>

definition isUpper :: "char \<Rightarrow> bool" where
  "isUpper c = ((65::nat) \<le> of_char c \<and> (of_char c :: nat) \<le> 90)"

definition isLower :: "char \<Rightarrow> bool" where
  "isLower c = ((97::nat) \<le> of_char c \<and> (of_char c :: nat) \<le> 122)"

definition isDigit :: "char \<Rightarrow> bool" where
  "isDigit c = ((48::nat) \<le> of_char c \<and> (of_char c :: nat) \<le> 57)"

definition toLowerChar :: "char \<Rightarrow> char" where
  "toLowerChar c = (if isUpper c then char_of (of_char c + (32::nat)) else c)"

definition toUpperChar :: "char \<Rightarrow> char" where
  "toUpperChar c = (if isLower c then char_of (of_char c - (32::nat)) else c)"

definition toLowerCase :: "string \<Rightarrow> string" where
  "toLowerCase s = map toLowerChar s"

definition toUpperCase :: "string \<Rightarrow> string" where
  "toUpperCase s = map toUpperChar s"

text \<open>A stable sort by a comparator \<open>cmp\<close> (negative or zero: the first argument stays
  before the second). Insertion from the right keeps equal elements in their order.\<close>

fun insertBy :: "('a \<Rightarrow> 'a \<Rightarrow> int) \<Rightarrow> 'a \<Rightarrow> 'a list \<Rightarrow> 'a list" where
  "insertBy cmp x [] = [x]"
| "insertBy cmp x (y # ys) = (if cmp x y \<le> 0 then x # y # ys else y # insertBy cmp x ys)"

definition sortBy :: "('a \<Rightarrow> 'a \<Rightarrow> int) \<Rightarrow> 'a list \<Rightarrow> 'a list" where
  "sortBy cmp xs = foldr (insertBy cmp) xs []"

text \<open>\<open>if (!m.has(k)) m.set(k, init); update(m.get(k))\<close> on an insertion-ordered map:
  a new key goes to the end, a known key keeps its place.\<close>

fun upsert :: "('k \<times> 'v) list \<Rightarrow> 'k \<Rightarrow> 'v \<Rightarrow> ('v \<Rightarrow> 'v) \<Rightarrow> ('k \<times> 'v) list" where
  "upsert [] k init f = [(k, f init)]"
| "upsert ((k', v) # m) k init f =
     (if k' = k then (k', f v) # m else (k', v) # upsert m k init f)"

subsection \<open>Inverse-contract calculator\<close>

definition isTradeExecution :: "Execution \<Rightarrow> bool" where
  "isTradeExecution e = (execType e = ''Trade'' \<and> side e \<noteq> [] \<and> lastQty e > 0)"

definition executionsBySymbol :: "Execution list \<Rightarrow> (string \<times> Execution list) list" where
  "executionsBySymbol tradeExecutions = foldl (\<lambda>m e. upsert m (symbol e) [] (\<lambda>es. es @ [e])) [] tradeExecutions"

definition byTimestamp :: "Execution \<Rightarrow> Execution \<Rightarrow> int" where
  "byTimestamp a b = timestamp a - timestamp b"

text \<open>The variables of one symbol's loop.\<close>

record InvState =
  runningPosition :: rat
  sessionExecutions :: "Execution list"
  sessionStartTime :: "int option"
  accTotalBought :: rat
  accTotalSold :: rat
  accTotalBuyCost :: rat
  accTotalSellCost :: rat
  accTotalCommission :: rat
  accMaxPosition :: rat

definition initInv :: InvState where
  "initInv = \<lparr>runningPosition = 0, sessionExecutions = [], sessionStartTime = None,
     accTotalBought = 0, accTotalSold = 0, accTotalBuyCost = 0, accTotalSellCost = 0,
     accTotalCommission = 0, accMaxPosition = 0\<rparr>"

definition toTrade :: "(string \<Rightarrow> string) \<Rightarrow> string \<Rightarrow> Execution \<Rightarrow> Trade" where
  "toTrade fmt currency e =
     \<lparr>trId = execID e, datetime = timestamp e, trSymbol = symbol e,
      trDisplaySymbol = fmt (symbol e), trSide = toLowerCase (side e),
      price = lastPx e, amount = lastQty e, cost = \<bar>execCost e\<bar>,
      feeCost = execComm e, feeCurrency = currency,
      trOrderID = orderID e, trExecType = ''Trade''\<rparr>"

definition closeSession ::
  "(string \<Rightarrow> string) \<Rightarrow> string \<Rightarrow> InvState \<Rightarrow> int \<Rightarrow> rat \<Rightarrow> Out \<Rightarrow> Out" where
  "closeSession fmt symb st endTime endPosition out =
     (case sessionStartTime st of
        None \<Rightarrow> out
      | Some start \<Rightarrow>
          if sessionExecutions st = [] then out
          else
            let sd = (if accTotalBought st > accTotalSold st then Long else Short);
                buyAvg = (if accTotalBought st > 0 then accTotalBuyCost st / accTotalBought st else 0);
                sellAvg = (if accTotalSold st > 0 then accTotalSellCost st / accTotalSold st else 0);
                entryPx = (if sd = Long then buyAvg else sellAvg);
                exitPx = (if sd = Long then sellAvg else buyAvg);
                closedQty = min (accTotalBought st) (accTotalSold st);
                pnl = (if closedQty > 0 \<and> entryPx > 0 \<and> exitPx > 0
                       then (if sd = Long then closedQty * (1 / entryPx - 1 / exitPx)
                             else closedQty * (1 / exitPx - 1 / entryPx))
                       else 0);
                fees = \<bar>accTotalCommission st\<bar> / 100000000;
                ts = map (toTrade fmt ''XBT'') (sessionExecutions st)
            in out\<lparr>allSessions := allSessions out @
                 [\<lparr>sid = symb @ ''-'' @ numberToString (globalSessionId out),
                   sSymbol = symb, sDisplaySymbol = fmt symb, sSide = sd,
                   openTime = start,
                   closeTime = (if endPosition = 0 then Some endTime else None),
                   durationMs = endTime - start,
                   maxSize = accMaxPosition st,
                   totalBought = accTotalBought st, totalSold = accTotalSold st,
                   avgEntryPrice = entryPx,
                   avgExitPrice = (if endPosition = 0 then exitPx else 0),
                   realizedPnl = (if endPosition = 0 then pnl else 0),
                   totalFees = fees,
                   netPnl = (if endPosition = 0 then pnl - fees else - fees),
                   tradeCount = length (sessionExecutions st),
                   trades = ts,
                   status = (if endPosition = 0 then Closed else Open)\<rparr>],
                 globalSessionId := Suc (globalSessionId out)\<rparr>)"

definition resetSession :: "InvState \<Rightarrow> InvState" where
  "resetSession st = st\<lparr>sessionExecutions := [], sessionStartTime := None,
     accTotalBought := 0, accTotalSold := 0, accTotalBuyCost := 0, accTotalSellCost := 0,
     accTotalCommission := 0, accMaxPosition := 0\<rparr>"

text \<open>The body of the loop over one symbol's executions, in four steps as the source has
  them: the update of the accumulators, the session start, the session end, the flip.\<close>

definition applyExec :: "InvState \<Rightarrow> Execution \<Rightarrow> InvState" where
  "applyExec st exec =
     (let qty = lastQty exec; px = lastPx exec;
          st1 = (if side exec = ''Buy''
                 then st\<lparr>runningPosition := runningPosition st + qty,
                         accTotalBought := accTotalBought st + qty,
                         accTotalBuyCost := accTotalBuyCost st + qty * px\<rparr>
                 else st\<lparr>runningPosition := runningPosition st - qty,
                         accTotalSold := accTotalSold st + qty,
                         accTotalSellCost := accTotalSellCost st + qty * px\<rparr>)
      in st1\<lparr>accTotalCommission := accTotalCommission st1 + execComm exec,
             sessionExecutions := sessionExecutions st1 @ [exec],
             accMaxPosition := max (accMaxPosition st1) \<bar>runningPosition st1\<bar>\<rparr>)"

definition checkStart :: "rat \<Rightarrow> Execution \<Rightarrow> InvState \<Rightarrow> InvState" where
  "checkStart positionBefore exec st =
     (if positionBefore = 0 \<and> runningPosition st \<noteq> 0
      then st\<lparr>sessionStartTime := Some (timestamp exec)\<rparr> else st)"

definition checkEnd ::
  "(string \<Rightarrow> string) \<Rightarrow> string \<Rightarrow> rat \<Rightarrow> Execution \<Rightarrow> InvState \<times> Out \<Rightarrow> InvState \<times> Out" where
  "checkEnd fmt symb positionBefore exec so =
     (case so of (st, out) \<Rightarrow>
        if positionBefore \<noteq> 0 \<and> runningPosition st = 0
        then (resetSession st, closeSession fmt symb st (timestamp exec) 0 out)
        else (st, out))"

definition isFlip :: "rat \<Rightarrow> rat \<Rightarrow> bool" where
  "isFlip positionBefore pos =
     ((positionBefore > 0 \<and> pos < 0) \<or> (positionBefore < 0 \<and> pos > 0))"

definition checkFlip ::
  "(string \<Rightarrow> string) \<Rightarrow> string \<Rightarrow> rat \<Rightarrow> Execution \<Rightarrow> InvState \<times> Out \<Rightarrow> InvState \<times> Out" where
  "checkFlip fmt symb positionBefore exec so =
     (case so of (st, out) \<Rightarrow>
        if isFlip positionBefore (runningPosition st)
        then
          let overflowQty = \<bar>runningPosition st\<bar>; px = lastPx exec;
              adj = (if side exec = ''Buy''
                     then st\<lparr>accTotalBought := accTotalBought st - overflowQty,
                             accTotalBuyCost := accTotalBuyCost st - overflowQty * px\<rparr>
                     else st\<lparr>accTotalSold := accTotalSold st - overflowQty,
                             accTotalSellCost := accTotalSellCost st - overflowQty * px\<rparr>);
              out' = closeSession fmt symb adj (timestamp exec) 0 out;
              fresh = (resetSession adj)\<lparr>sessionStartTime := Some (timestamp exec),
                                         sessionExecutions := [exec]\<rparr>;
              seeded = (if side exec = ''Buy''
                        then fresh\<lparr>accTotalBought := overflowQty,
                                   accTotalBuyCost := overflowQty * px\<rparr>
                        else fresh\<lparr>accTotalSold := overflowQty,
                                   accTotalSellCost := overflowQty * px\<rparr>)
          in (seeded\<lparr>accTotalCommission := execComm exec, accMaxPosition := overflowQty\<rparr>, out')
        else (st, out))"

definition processExecution ::
  "(string \<Rightarrow> string) \<Rightarrow> string \<Rightarrow> InvState \<times> Out \<Rightarrow> Execution \<Rightarrow> InvState \<times> Out" where
  "processExecution fmt symb so exec =
     (case so of (st, out) \<Rightarrow>
        let positionBefore = runningPosition st
        in checkFlip fmt symb positionBefore exec
             (checkEnd fmt symb positionBefore exec
                (checkStart positionBefore exec (applyExec st exec), out)))"

definition finishSymbol :: "(string \<Rightarrow> string) \<Rightarrow> string \<Rightarrow> InvState \<times> Out \<Rightarrow> Out" where
  "finishSymbol fmt symb so =
     (case so of (st, out) \<Rightarrow>
        if runningPosition st \<noteq> 0 \<and> sessionExecutions st \<noteq> []
        then closeSession fmt symb st (timestamp (last (sessionExecutions st))) (runningPosition st) out
        else out)"

definition processSymbol ::
  "(string \<Rightarrow> string) \<Rightarrow> Out \<Rightarrow> string \<times> Execution list \<Rightarrow> Out" where
  "processSymbol fmt out grp =
     (case grp of (symb, symbolExecutions) \<Rightarrow>
        finishSymbol fmt symb
          (foldl (processExecution fmt symb) (initInv, out) (sortBy byTimestamp symbolExecutions)))"

definition sessionTime :: "PositionSession \<Rightarrow> int" where
  "sessionTime s = (case closeTime s of Some t \<Rightarrow> t | None \<Rightarrow> openTime s)"

definition newestFirst :: "PositionSession \<Rightarrow> PositionSession \<Rightarrow> int" where
  "newestFirst a b = sessionTime b - sessionTime a"

definition emptyOut :: Out where
  "emptyOut = \<lparr>allSessions = [], globalSessionId = 0\<rparr>"

definition calculateBitMEXPositionSessions ::
  "(string \<Rightarrow> string) \<Rightarrow> Execution list \<Rightarrow> PositionSession list" where
  "calculateBitMEXPositionSessions fmt execs =
     sortBy newestFirst
       (allSessions (foldl (processSymbol fmt) emptyOut
          (executionsBySymbol (filter isTradeExecution execs))))"

subsection \<open>Regular expressions of the annotation text\<close>

definition isSpace :: "char \<Rightarrow> bool" where
  "isSpace c = ((9::nat) \<le> of_char c \<and> (of_char c :: nat) \<le> 13 \<or> c = CHR '' '')"

definition isWordChar :: "char \<Rightarrow> bool" where
  "isWordChar c = (isUpper c \<or> isLower c \<or> isDigit c \<or> c = CHR ''_'')"

definition isSeparator :: "char \<Rightarrow> bool" where
  "isSeparator c = (c = CHR '':'' \<or> isSpace c)"

text \<open>A literal matched without regard to case (flag \<open>i\<close>) at the head of a string: the
  rest of the string after it. The literal is given in lower case.\<close>

fun matchLiteral :: "string \<Rightarrow> string \<Rightarrow> string option" where
  "matchLiteral [] s = Some s"
| "matchLiteral (k # ks) [] = None"
| "matchLiteral (k # ks) (c # cs) = (if toLowerChar c = k then matchLiteral ks cs else None)"

text \<open>\<open>String.prototype.match\<close> without the flag \<open>g\<close>: the leftmost position where the
  pattern matches.\<close>

fun regexSearch :: "(string \<Rightarrow> 'a option) \<Rightarrow> string \<Rightarrow> 'a option" where
  "regexSearch m [] = m []"
| "regexSearch m (c # cs) =
     (case m (c # cs) of Some r \<Rightarrow> Some r | None \<Rightarrow> regexSearch m cs)"

text \<open>\<open>/(?:positionSide|posSide)[:\s]*(\w+)/i\<close> at one position: the captured group. The
  classes \<open>[:\s]\<close> and \<open>\w\<close> are disjoint, so the greedy match is the only one.\<close>

definition matchPositionSide :: "string \<Rightarrow> string option" where
  "matchPositionSide s =
     (case (case matchLiteral ''positionside'' s of
              Some r \<Rightarrow> Some r | None \<Rightarrow> matchLiteral ''posside'' s) of
        None \<Rightarrow> None
      | Some r \<Rightarrow>
          let w = takeWhile isWordChar (dropWhile isSeparator r)
          in if w = [] then None else Some w)"

definition parsePositionSideFromText :: "string \<Rightarrow> string" where
  "parsePositionSideFromText txt =
     (if txt = [] then ''BOTH''
      else case regexSearch matchPositionSide txt of
             Some w \<Rightarrow>
               let sd = toUpperCase w
               in if sd = ''LONG'' \<or> sd = ''SHORT'' then sd else ''BOTH''
           | None \<Rightarrow> ''BOTH'')"

text \<open>\<open>/realizedPnl[:\s]*(-?[\d.]+)/i\<close> at one position: the captured group.\<close>

definition isNumChar :: "char \<Rightarrow> bool" where
  "isNumChar c = (isDigit c \<or> c = CHR ''.'')"

definition matchRealizedPnl :: "string \<Rightarrow> string option" where
  "matchRealizedPnl s =
     (case matchLiteral ''realizedpnl'' s of
        None \<Rightarrow> None
      | Some r \<Rightarrow>
          (case dropWhile isSeparator r of
             [] \<Rightarrow> None
           | c # cs \<Rightarrow>
               if c = CHR ''-''
               then (let ds = takeWhile isNumChar cs
                     in if ds = [] then None else Some (c # ds))
               else (let ds = takeWhile isNumChar (c # cs)
                     in if ds = [] then None else Some ds)))"

text \<open>\<open>parseFloat\<close> on a captured group, that is on an optional minus sign followed by
  digits and dots: the longest prefix that is a decimal literal, \<open>None\<close> for \<open>NaN\<close>.\<close>

definition digitsToNat :: "string \<Rightarrow> nat" where
  "digitsToNat ds = foldl (\<lambda>n c. 10 * n + (of_char c - 48)) 0 ds"

definition parseUnsigned :: "string \<Rightarrow> rat option" where
  "parseUnsigned s =
     (let ip = takeWhile isDigit s; r = dropWhile isDigit s;
          fp = (case r of [] \<Rightarrow> [] | c # cs \<Rightarrow> if c = CHR ''.'' then takeWhile isDigit cs else [])
      in if ip = [] \<and> fp = [] then None
         else Some (of_nat (digitsToNat ip) + of_nat (digitsToNat fp) / 10 ^ length fp))"

definition parseFloat :: "string \<Rightarrow> rat option" where
  "parseFloat s =
     (case s of
        [] \<Rightarrow> None
      | c # cs \<Rightarrow>
          if c = CHR ''-'' then map_option uminus (parseUnsigned cs) else parseUnsigned (c # cs))"

definition parseRealizedPnlFromText :: "string \<Rightarrow> rat" where
  "parseRealizedPnlFromText txt =
     (if txt = [] then 0
      else case regexSearch matchRealizedPnl txt of
             Some g \<Rightarrow> (case parseFloat g of Some v \<Rightarrow> v | None \<Rightarrow> 0)
           | None \<Rightarrow> 0)"

subsection \<open>Hedge-mode calculator\<close>

definition BINANCE_POSITION_TOLERANCE :: rat where
  "BINANCE_POSITION_TOLERANCE = 1 / 100"

definition BINANCE_SESSION_GAP_MS :: int where
  "BINANCE_SESSION_GAP_MS = 2 * 60 * 60 * 1000"

definition isBinancePositionClosed :: "rat \<Rightarrow> bool" where
  "isBinancePositionClosed position = (\<bar>position\<bar> < BINANCE_POSITION_TOLERANCE)"

record BinanceAggregatedOrder =
  oOrderID :: string
  oSymbol :: string
  oSide :: string
  positionSide :: string
  totalQty :: rat
  avgPrice :: rat
  totalCost :: rat
  totalComm :: rat
  oRealizedPnl :: rat
  oTimestamp :: int
  executions :: "Execution list"

definition groupKey :: "Execution \<Rightarrow> string" where
  "groupKey e = symbol e @ '':'' @ parsePositionSideFromText (etext e)"

definition executionsByKey :: "Execution list \<Rightarrow> (string \<times> Execution list) list" where
  "executionsByKey tradeExecutions =
     foldl (\<lambda>m e. upsert m (groupKey e) [] (\<lambda>es. es @ [e])) [] tradeExecutions"

text \<open>\<open>key.split(':')\<close> and the destructuring of its first two parts; a part that is not
  there is \<open>undefined\<close>, which a key never produces: it contains a colon.\<close>

fun split :: "char \<Rightarrow> string \<Rightarrow> string list" where
  "split d [] = [[]]"
| "split d (c # cs) =
     (if c = d then [] # split d cs
      else case split d cs of [] \<Rightarrow> [[c]] | w # ws \<Rightarrow> (c # w) # ws)"

definition keyParts :: "string \<Rightarrow> string \<times> string" where
  "keyParts key =
     (case split CHR '':'' key of
        a # b # _ \<Rightarrow> (a, b)
      | [a] \<Rightarrow> (a, ''undefined'')
      | [] \<Rightarrow> (''undefined'', ''undefined''))"

definition newOrder :: "string \<Rightarrow> Execution \<Rightarrow> BinanceAggregatedOrder" where
  "newOrder posSide e =
     \<lparr>oOrderID = orderID e, oSymbol = symbol e, oSide = side e, positionSide = posSide,
      totalQty = 0, avgPrice = 0, totalCost = 0, totalComm = 0, oRealizedPnl = 0,
      oTimestamp = timestamp e, executions = []\<rparr>"

definition addExecution :: "Execution \<Rightarrow> BinanceAggregatedOrder \<Rightarrow> BinanceAggregatedOrder" where
  "addExecution e order =
     order\<lparr>totalQty := totalQty order + lastQty e,
           totalCost := totalCost order + lastQty e * lastPx e,
           totalComm := totalComm order + execComm e,
           oRealizedPnl := oRealizedPnl order + parseRealizedPnlFromText (etext e),
           executions := executions order @ [e],
           oTimestamp := (if timestamp e < oTimestamp order then timestamp e
                          else oTimestamp order)\<rparr>"

definition orderMap :: "string \<Rightarrow> Execution list \<Rightarrow> (string \<times> BinanceAggregatedOrder) list" where
  "orderMap posSide keyExecutions =
     foldl (\<lambda>m e. upsert m (orderID e) (newOrder posSide e) (addExecution e)) [] keyExecutions"

definition setAvgPrice :: "BinanceAggregatedOrder \<Rightarrow> BinanceAggregatedOrder" where
  "setAvgPrice order =
     order\<lparr>avgPrice := (if totalQty order > 0 then totalCost order / totalQty order else 0)\<rparr>"

definition byOrderTimestamp :: "BinanceAggregatedOrder \<Rightarrow> BinanceAggregatedOrder \<Rightarrow> int" where
  "byOrderTimestamp a b = oTimestamp a - oTimestamp b"

definition sortedOrders :: "string \<Rightarrow> Execution list \<Rightarrow> BinanceAggregatedOrder list" where
  "sortedOrders posSide keyExecutions =
     sortBy byOrderTimestamp (map (setAvgPrice \<circ> snd) (orderMap posSide keyExecutions))"

text \<open>The variables of one key's loop.\<close>

record HedgeState =
  hRunningPosition :: rat
  sessionOrders :: "BinanceAggregatedOrder list"
  hSessionStartTime :: "int option"
  lastOrderTime :: int

definition initHedge :: HedgeState where
  "initHedge = \<lparr>hRunningPosition = 0, sessionOrders = [], hSessionStartTime = None,
     lastOrderTime = 0\<rparr>"

definition getPositionDelta :: "bool \<Rightarrow> BinanceAggregatedOrder \<Rightarrow> rat" where
  "getPositionDelta isShortPosition order =
     (if isShortPosition
      then (if oSide order = ''Sell'' then totalQty order else - totalQty order)
      else (if oSide order = ''Buy'' then totalQty order else - totalQty order))"

definition isOpening :: "bool \<Rightarrow> BinanceAggregatedOrder \<Rightarrow> bool" where
  "isOpening isShortPosition order =
     (if isShortPosition then oSide order = ''Sell'' else oSide order = ''Buy'')"

definition byDatetime :: "Trade \<Rightarrow> Trade \<Rightarrow> int" where
  "byDatetime a b = datetime a - datetime b"

text \<open>The three loops of the hedge-mode \<open>closeSession\<close> over the session's orders: the
  totals, the largest position, the trades.\<close>

definition sumWhere ::
  "(BinanceAggregatedOrder \<Rightarrow> bool) \<Rightarrow> (BinanceAggregatedOrder \<Rightarrow> rat) \<Rightarrow>
   BinanceAggregatedOrder list \<Rightarrow> rat" where
  "sumWhere p f orders = foldl (\<lambda>acc order. if p order then acc + f order else acc) 0 orders"

definition maxPositionOf :: "bool \<Rightarrow> BinanceAggregatedOrder list \<Rightarrow> rat" where
  "maxPositionOf isShortPosition orders =
     snd (foldl (\<lambda>(tempPos, maxPosition) order.
                   let tempPos' = tempPos + getPositionDelta isShortPosition order
                   in (tempPos', max maxPosition \<bar>tempPos'\<bar>))
            (0, 0) orders)"

definition tradesOf :: "(string \<Rightarrow> string) \<Rightarrow> BinanceAggregatedOrder list \<Rightarrow> Trade list" where
  "tradesOf fmt orders =
     sortBy byDatetime (concat (map (\<lambda>order. map (toTrade fmt ''USDT'') (executions order)) orders))"

definition closeSessionB ::
  "(string \<Rightarrow> string) \<Rightarrow> string \<Rightarrow> string \<Rightarrow> bool \<Rightarrow> HedgeState \<Rightarrow> int \<Rightarrow> Out \<Rightarrow> Out" where
  "closeSessionB fmt symb posSide isShortPosition st endTime out =
     (case hSessionStartTime st of
        None \<Rightarrow> out
      | Some start \<Rightarrow>
          if sessionOrders st = [] then out
          else
            let orders = sessionOrders st;
                totalEntry = sumWhere (isOpening isShortPosition) totalQty orders;
                totalEntryCost = sumWhere (isOpening isShortPosition) totalCost orders;
                totalExit = sumWhere (\<lambda>order. \<not> isOpening isShortPosition order) totalQty orders;
                totalExitCost = sumWhere (\<lambda>order. \<not> isOpening isShortPosition order) totalCost orders;
                totalCm = sumWhere (\<lambda>order. True) totalComm orders;
                totalRealizedPnl = sumWhere (\<lambda>order. True) oRealizedPnl orders;
                entryPx = (if totalEntry > 0 then totalEntryCost / totalEntry else 0);
                exitPx = (if totalExit > 0 then totalExitCost / totalExit else 0);
                fees = \<bar>totalCm\<bar> / 100000000;
                ts = tradesOf fmt orders;
                isClosed = isBinancePositionClosed (totalEntry - totalExit)
            in out\<lparr>allSessions := allSessions out @
                 [\<lparr>sid = symb @ ''-'' @ posSide @ ''-'' @ numberToString (globalSessionId out),
                   sSymbol = symb, sDisplaySymbol = fmt symb,
                   sSide = (if isShortPosition then Short else Long),
                   openTime = start,
                   closeTime = (if isClosed then Some endTime else None),
                   durationMs = endTime - start,
                   maxSize = maxPositionOf isShortPosition orders,
                   totalBought = (if isShortPosition then totalExit else totalEntry),
                   totalSold = (if isShortPosition then totalEntry else totalExit),
                   avgEntryPrice = entryPx,
                   avgExitPrice = (if isClosed then exitPx else 0),
                   realizedPnl = (if isClosed then totalRealizedPnl else 0),
                   totalFees = fees,
                   netPnl = (if isClosed then totalRealizedPnl - fees else - fees),
                   tradeCount = length ts,
                   trades = ts,
                   status = (if isClosed then Closed else Open)\<rparr>],
                 globalSessionId := Suc (globalSessionId out)\<rparr>)"

text \<open>\<open>resetSession(); runningPosition = 0\<close>: the two always go together.\<close>

definition resetSessionB :: "HedgeState \<Rightarrow> HedgeState" where
  "resetSessionB st = st\<lparr>sessionOrders := [], hSessionStartTime := None, hRunningPosition := 0\<rparr>"

text \<open>The body of the loop over one key's orders, in three steps as the source has them:
  the time-gap check, the update with the session start, the session end.\<close>

definition timeSinceLastOrder :: "HedgeState \<Rightarrow> BinanceAggregatedOrder \<Rightarrow> int" where
  "timeSinceLastOrder st order =
     (if lastOrderTime st > 0 then oTimestamp order - lastOrderTime st else 0)"

definition gapFires :: "HedgeState \<Rightarrow> BinanceAggregatedOrder \<Rightarrow> bool" where
  "gapFires st order =
     (timeSinceLastOrder st order > BINANCE_SESSION_GAP_MS \<and> sessionOrders st \<noteq> [] \<and>
      isBinancePositionClosed (hRunningPosition st))"

definition checkGap ::
  "(string \<Rightarrow> string) \<Rightarrow> string \<Rightarrow> string \<Rightarrow> bool \<Rightarrow> BinanceAggregatedOrder \<Rightarrow>
   HedgeState \<times> Out \<Rightarrow> HedgeState \<times> Out" where
  "checkGap fmt symb posSide isShortPosition order so =
     (case so of (st, out) \<Rightarrow>
        if gapFires st order
        then (resetSessionB st,
              closeSessionB fmt symb posSide isShortPosition st
                (oTimestamp (last (sessionOrders st))) out)
        else (st, out))"

definition applyOrder :: "bool \<Rightarrow> bool \<Rightarrow> BinanceAggregatedOrder \<Rightarrow> HedgeState \<Rightarrow> HedgeState" where
  "applyOrder isShortPosition wasPositionClosed order st =
     (let st1 = st\<lparr>hRunningPosition := hRunningPosition st + getPositionDelta isShortPosition order\<rparr>;
          isNowClosed = isBinancePositionClosed (hRunningPosition st1);
          st2 = (if wasPositionClosed \<and> \<not> isNowClosed \<and> sessionOrders st1 = []
                 then st1\<lparr>hSessionStartTime := Some (oTimestamp order)\<rparr> else st1)
      in st2\<lparr>sessionOrders := sessionOrders st2 @ [order], lastOrderTime := oTimestamp order\<rparr>)"

definition checkEndB ::
  "(string \<Rightarrow> string) \<Rightarrow> string \<Rightarrow> string \<Rightarrow> bool \<Rightarrow> bool \<Rightarrow> BinanceAggregatedOrder \<Rightarrow>
   HedgeState \<times> Out \<Rightarrow> HedgeState \<times> Out" where
  "checkEndB fmt symb posSide isShortPosition wasPositionClosed order so =
     (case so of (st, out) \<Rightarrow>
        if \<not> wasPositionClosed \<and> isBinancePositionClosed (hRunningPosition st)
        then (resetSessionB st,
              closeSessionB fmt symb posSide isShortPosition st (oTimestamp order) out)
        else (st, out))"

definition processOrder ::
  "(string \<Rightarrow> string) \<Rightarrow> string \<Rightarrow> string \<Rightarrow> bool \<Rightarrow> HedgeState \<times> Out \<Rightarrow>
   BinanceAggregatedOrder \<Rightarrow> HedgeState \<times> Out" where
  "processOrder fmt symb posSide isShortPosition so order =
     (let wasPositionClosed = isBinancePositionClosed (hRunningPosition (fst so))
      in case checkGap fmt symb posSide isShortPosition order so of (st, out) \<Rightarrow>
           checkEndB fmt symb posSide isShortPosition wasPositionClosed order
             (applyOrder isShortPosition wasPositionClosed order st, out))"

definition finishKey ::
  "(string \<Rightarrow> string) \<Rightarrow> string \<Rightarrow> string \<Rightarrow> bool \<Rightarrow> HedgeState \<times> Out \<Rightarrow> Out" where
  "finishKey fmt symb posSide isShortPosition so =
     (case so of (st, out) \<Rightarrow>
        if sessionOrders st \<noteq> []
        then closeSessionB fmt symb posSide isShortPosition st
               (oTimestamp (last (sessionOrders st))) out
        else out)"

definition processOrders ::
  "(string \<Rightarrow> string) \<Rightarrow> string \<Rightarrow> string \<Rightarrow> bool \<Rightarrow> Out \<Rightarrow> BinanceAggregatedOrder list \<Rightarrow> Out" where
  "processOrders fmt symb posSide isShortPosition out orders =
     finishKey fmt symb posSide isShortPosition
       (foldl (processOrder fmt symb posSide isShortPosition) (initHedge, out) orders)"

definition processKey :: "(string \<Rightarrow> string) \<Rightarrow> Out \<Rightarrow> string \<times> Execution list \<Rightarrow> Out" where
  "processKey fmt out grp =
     (case grp of (key, keyExecutions) \<Rightarrow>
        case keyParts key of (symb, posSide) \<Rightarrow>
          processOrders fmt symb posSide (posSide = ''SHORT'') out
            (sortedOrders posSide keyExecutions))"

definition calculateBinancePositionSessions ::
  "(string \<Rightarrow> string) \<Rightarrow> Execution list \<Rightarrow> PositionSession list" where
  "calculateBinancePositionSessions fmt execs =
     sortBy newestFirst
       (allSessions (foldl (processKey fmt) emptyOut
          (executionsByKey (filter isTradeExecution execs))))"

subsection \<open>Dispatcher\<close>

fun startsWith :: "string \<Rightarrow> string \<Rightarrow> bool" where
  "startsWith s [] = True"
| "startsWith [] (p # ps) = False"
| "startsWith (c # cs) (p # ps) = (c = p \<and> startsWith cs ps)"

fun stringIncludes :: "string \<Rightarrow> string \<Rightarrow> bool" where
  "stringIncludes [] sub = (sub = [])"
| "stringIncludes (c # cs) sub = (startsWith (c # cs) sub \<or> stringIncludes cs sub)"

definition useHedgeCalculator :: "(string \<Rightarrow> bool) \<Rightarrow> string option \<Rightarrow> string \<Rightarrow> bool" where
  "useHedgeCalculator isBinanceSymbol exchangeId firstSymbol =
     (let isBinance = (exchangeId = Some ''binance'' \<or> isBinanceSymbol firstSymbol);
          isOkx = (exchangeId = Some ''okx'' \<or> stringIncludes firstSymbol ''-SWAP'' \<or>
                   stringIncludes firstSymbol ''-USDT-'')
      in isBinance \<or> isOkx)"

definition calculatePositionSessionsFromExecutions ::
  "(string \<Rightarrow> string) \<Rightarrow> (string \<Rightarrow> bool) \<Rightarrow> Execution list \<Rightarrow> string option \<Rightarrow>
   PositionSession list" where
  "calculatePositionSessionsFromExecutions fmt isBinanceSymbol execs exchangeId =
     (case execs of
        [] \<Rightarrow> []
      | e # _ \<Rightarrow>
          if useHedgeCalculator isBinanceSymbol exchangeId (symbol e)
          then calculateBinancePositionSessions fmt execs
          else calculateBitMEXPositionSessions fmt execs)"

subsection \<open>Inputs of the example scenarios\<close>

text \<open>An execution of type \<open>Trade\<close>, as the scenarios of the specification give them.\<close>

definition tradeExecution ::
  "string \<Rightarrow> string \<Rightarrow> string \<Rightarrow> string \<Rightarrow> rat \<Rightarrow> rat \<Rightarrow> rat \<Rightarrow> rat \<Rightarrow> int \<Rightarrow> string \<Rightarrow> Execution" where
  "tradeExecution i oid symb sd qty px c comm t txt =
     \<lparr>execID = i, orderID = oid, symbol = symb, side = sd, lastQty = qty, lastPx = px,
      execType = ''Trade'', execCost = c, execComm = comm, timestamp = t, etext = txt\<rparr>"

subsection \<open>Notions of the statements and of the invariants\<close>

text \<open>All trades of a list of sessions, with their multiplicities.\<close>

definition sessionTrades :: "PositionSession list \<Rightarrow> Trade multiset" where
  "sessionTrades ss = mset (concat (map trades ss))"

text \<open>The running position of the inverse-contract loop after one more execution, and
  the executions of a time-ordered list at which the position changes sign.\<close>

definition nextPosition :: "rat \<Rightarrow> Execution \<Rightarrow> rat" where
  "nextPosition pos e = (if side e = ''Buy'' then pos + lastQty e else pos - lastQty e)"

fun flipsFrom :: "rat \<Rightarrow> Execution list \<Rightarrow> Execution list" where
  "flipsFrom pos [] = []"
| "flipsFrom pos (e # es) =
     (if isFlip pos (nextPosition pos e) then [e] else []) @ flipsFrom (nextPosition pos e) es"

text \<open>The executions of an input that trigger a flip: those of each symbol, in the order
  of the symbol's loop.\<close>

definition flipExecutions :: "Execution list \<Rightarrow> Execution list" where
  "flipExecutions execs =
     concat (map (\<lambda>grp. flipsFrom 0 (sortBy byTimestamp (snd grp)))
       (executionsBySymbol (filter isTradeExecution execs)))"


text \<open>Invariants of the inverse-contract loop: a flat position has no pending executions
  and a non-flat one has a session start; the pending trades; the commission accumulator.\<close>

definition invOK :: "InvState \<Rightarrow> bool" where
  "invOK st = ((runningPosition st = 0 \<longrightarrow> sessionExecutions st = []) \<and>
               (runningPosition st \<noteq> 0 \<longrightarrow> sessionStartTime st \<noteq> None))"

definition pending :: "(string \<Rightarrow> string) \<Rightarrow> InvState \<times> Out \<Rightarrow> Trade multiset" where
  "pending fmt so = sessionTrades (allSessions (snd so)) +
      mset (map (toTrade fmt ''XBT'') (sessionExecutions (fst so)))"


text \<open>The fees of a session are those of its trades.\<close>

definition feesOK :: "PositionSession \<Rightarrow> bool" where
  "feesOK s = (totalFees s = \<bar>sum_list (map feeCost (trades s))\<bar> / 100000000)"

definition commOK :: "InvState \<Rightarrow> bool" where
  "commOK st = (accTotalCommission st = sum_list (map execComm (sessionExecutions st)))"

definition orderOK :: "BinanceAggregatedOrder \<Rightarrow> bool" where
  "orderOK order = (totalComm order = sum_list (map execComm (executions order)))"

definition feesInvB :: "HedgeState \<times> Out \<Rightarrow> bool" where
  "feesInvB so = ((\<forall>order\<in>set (sessionOrders (fst so)). orderOK order) \<and>
                  (\<forall>s\<in>set (allSessions (snd so)). feesOK s))"

text \<open>The aggregated order of a single execution.\<close>

definition orderOf :: "string \<Rightarrow> Execution \<Rightarrow> BinanceAggregatedOrder" where
  "orderOf posSide e = setAvgPrice (addExecution e (newOrder posSide e))"

text \<open>The entry total less the exit total of a list of orders, as the hedge-mode
  \<open>closeSession\<close> computes them, and the invariant of the hedge-mode loop.\<close>

definition netPosition :: "bool \<Rightarrow> BinanceAggregatedOrder list \<Rightarrow> rat" where
  "netPosition isShortPosition orders =
     sumWhere (isOpening isShortPosition) totalQty orders -
     sumWhere (\<lambda>order. \<not> isOpening isShortPosition order) totalQty orders"

definition hedgeInv :: "bool \<Rightarrow> HedgeState \<Rightarrow> bool" where
  "hedgeInv isShortPosition st =
     (hRunningPosition st = netPosition isShortPosition (sessionOrders st) \<and>
      (hSessionStartTime st = None \<or>
       (\<not> isBinancePositionClosed (hRunningPosition st) \<and> sessionOrders st \<noteq> [])))"

section \<open>Properties\<close>

subsection \<open>The stable sort\<close>

lemma mset_insertBy: "mset (insertBy cmp x ys) = add_mset x (mset ys)"
  by (induction ys) auto

lemma mset_sortBy: "mset (sortBy cmp xs) = mset xs"
  unfolding sortBy_def by (induction xs) (auto simp: mset_insertBy)

lemma set_sortBy: "set (sortBy cmp xs) = set xs"
  using mset_sortBy[of cmp xs] by (metis set_mset_mset)

lemma sorted_insertBy:
  assumes "\<And>x y. (cmp x y \<le> 0) = (k x \<le> (k y :: int))"
  shows "sorted (map k ys) \<Longrightarrow> sorted (map k (insertBy cmp x ys))"
proof (induction ys)
  case Nil
  then show ?case by simp
next
  case (Cons y ys)
  have "set (insertBy cmp x ys) = insert x (set ys)"
    using mset_insertBy[of cmp x ys] by (metis set_mset_add_mset_insert set_mset_mset)
  with Cons assms show ?case by auto
qed

lemma sorted_sortBy:
  assumes "\<And>x y. (cmp x y \<le> 0) = (k x \<le> (k y :: int))"
  shows "sorted (map k (sortBy cmp xs))"
  unfolding sortBy_def by (induction xs) (auto intro: sorted_insertBy[OF assms])

lemma newestFirst_sorted:
  "sorted_wrt (\<lambda>a b. sessionTime b \<le> sessionTime a) (sortBy newestFirst xs)"
proof -
  have "sorted (map (\<lambda>s. - sessionTime s) (sortBy newestFirst xs))"
    by (rule sorted_sortBy) (simp add: newestFirst_def)
  then show ?thesis
    by (simp add: sorted_wrt_map)
qed

subsection \<open>C10: the output is ordered newest first\<close>

text \<open>
  C10. For every input, the list of sessions that either calculator returns is in
  descending order of the key \<open>sessionTime\<close>: the close time of a session that has one,
  its open time otherwise.
\<close>

theorem sessions_newest_first:
  "sorted_wrt (\<lambda>a b. sessionTime b \<le> sessionTime a) (calculateBitMEXPositionSessions fmt execs) \<and>
   sorted_wrt (\<lambda>a b. sessionTime b \<le> sessionTime a) (calculateBinancePositionSessions fmt execs)"
  unfolding calculateBitMEXPositionSessions_def calculateBinancePositionSessions_def
  by (simp add: newestFirst_sorted)

subsection \<open>Evaluation of the calculators on concrete inputs\<close>

lemmas inverse_defs = calculateBitMEXPositionSessions_def executionsBySymbol_def
  isTradeExecution_def processSymbol_def sortBy_def byTimestamp_def processExecution_def
  checkFlip_def checkEnd_def checkStart_def applyExec_def initInv_def emptyOut_def
  finishSymbol_def closeSession_def resetSession_def isFlip_def newestFirst_def
  sessionTime_def Let_def

lemmas hedge_defs = calculateBinancePositionSessions_def executionsByKey_def
  isTradeExecution_def processKey_def sortedOrders_def orderMap_def newOrder_def
  addExecution_def setAvgPrice_def byOrderTimestamp_def sortBy_def processOrders_def
  processOrder_def checkGap_def gapFires_def timeSinceLastOrder_def applyOrder_def
  checkEndB_def finishKey_def closeSessionB_def resetSessionB_def initHedge_def emptyOut_def
  getPositionDelta_def isOpening_def sumWhere_def maxPositionOf_def tradesOf_def
  byDatetime_def isBinancePositionClosed_def BINANCE_POSITION_TOLERANCE_def
  BINANCE_SESSION_GAP_MS_def newestFirst_def sessionTime_def groupKey_def Let_def

lemma numberToString_small:
  "numberToString 0 = ''0''" "numberToString (Suc 0) = ''1''"
  by (simp_all add: numberToString.simps[of 0] numberToString.simps[of "Suc 0"] digitChar_def)

lemma parse_tags:
  "parsePositionSideFromText ''positionSide:LONG'' = ''LONG''"
  "parsePositionSideFromText ''positionSide:SHORT'' = ''SHORT''"
  "parseRealizedPnlFromText ''positionSide:LONG'' = 0"
  "parseRealizedPnlFromText ''positionSide:SHORT'' = 0"
  "keyParts ''Y:LONG'' = (''Y'', ''LONG'')"
  "keyParts ''Y:SHORT'' = (''Y'', ''SHORT'')"
  by code_simp+

subsection \<open>C1: scenario A, a round trip on an inverse contract\<close>

text \<open>
  C1 (what the code computes at the scenario's input). For a buy of 100 at 50000 at
  time 0 followed by a sell of 100 at 51000 at time 10 on one symbol, whatever the
  identifiers, costs, commissions and annotations, the inverse-contract calculator returns
  exactly one session. It is closed and its realized PnL is 100 * (1/50000 - 1/51000),
  but its side is \<open>Short\<close>, its average entry price 51000 and its average exit price
  50000: at the close the bought and the sold totals are equal, and the test
  \<open>totalBought > totalSold\<close> of \<open>closeSession\<close> then answers \<open>Short\<close>.
\<close>

theorem scenarioA_round_trip:
  "calculateBitMEXPositionSessions fmt
     [tradeExecution i1 o1 symb ''Buy'' 100 50000 c1 m1 0 x1,
      tradeExecution i2 o2 symb ''Sell'' 100 51000 c2 m2 10 x2] =
   [\<lparr>sid = symb @ ''-0'', sSymbol = symb, sDisplaySymbol = fmt symb, sSide = Short,
     openTime = 0, closeTime = Some 10, durationMs = 10, maxSize = 100,
     totalBought = 100, totalSold = 100, avgEntryPrice = 51000, avgExitPrice = 50000,
     realizedPnl = 100 * (1 / 50000 - 1 / 51000),
     totalFees = \<bar>m1 + m2\<bar> / 100000000,
     netPnl = 100 * (1 / 50000 - 1 / 51000) - \<bar>m1 + m2\<bar> / 100000000,
     tradeCount = 2,
     trades = [toTrade fmt ''XBT'' (tradeExecution i1 o1 symb ''Buy'' 100 50000 c1 m1 0 x1),
               toTrade fmt ''XBT'' (tradeExecution i2 o2 symb ''Sell'' 100 51000 c2 m2 10 x2)],
     status = Closed\<rparr>]"
  by (simp add: inverse_defs tradeExecution_def numberToString_small)

subsection \<open>C3: scenario B, a flip on an inverse contract\<close>

text \<open>
  C3 (what the code computes at the scenario's input). For a buy of 5 at 100 at time 0
  followed by a sell of 12 at 110 at time 5 on one symbol, the inverse-contract
  calculator returns exactly two sessions. The first is closed with 5 bought and 5 sold,
  but with average entry price 110 and average exit price 100 (its side is \<open>Short\<close>, as
  in scenario A). The second is open and short with 7 sold and nothing bought, average
  entry price 110, largest size 7 and open time 5.
\<close>

theorem scenarioB_flip:
  "calculateBitMEXPositionSessions fmt
     [tradeExecution i1 o1 symb ''Buy'' 5 100 c1 m1 0 x1,
      tradeExecution i2 o2 symb ''Sell'' 12 110 c2 m2 5 x2] =
   [\<lparr>sid = symb @ ''-0'', sSymbol = symb, sDisplaySymbol = fmt symb, sSide = Short,
     openTime = 0, closeTime = Some 5, durationMs = 5, maxSize = 7,
     totalBought = 5, totalSold = 5, avgEntryPrice = 110, avgExitPrice = 100,
     realizedPnl = 5 * (1 / 100 - 1 / 110),
     totalFees = \<bar>m1 + m2\<bar> / 100000000,
     netPnl = 5 * (1 / 100 - 1 / 110) - \<bar>m1 + m2\<bar> / 100000000,
     tradeCount = 2,
     trades = [toTrade fmt ''XBT'' (tradeExecution i1 o1 symb ''Buy'' 5 100 c1 m1 0 x1),
               toTrade fmt ''XBT'' (tradeExecution i2 o2 symb ''Sell'' 12 110 c2 m2 5 x2)],
     status = Closed\<rparr>,
    \<lparr>sid = symb @ ''-1'', sSymbol = symb, sDisplaySymbol = fmt symb, sSide = Short,
     openTime = 5, closeTime = None, durationMs = 0, maxSize = 7,
     totalBought = 0, totalSold = 7, avgEntryPrice = 110, avgExitPrice = 0,
     realizedPnl = 0,
     totalFees = \<bar>m2\<bar> / 100000000,
     netPnl = - (\<bar>m2\<bar> / 100000000),
     tradeCount = 1,
     trades = [toTrade fmt ''XBT'' (tradeExecution i2 o2 symb ''Sell'' 12 110 c2 m2 5 x2)],
     status = Open\<rparr>]"
  by (simp add: inverse_defs tradeExecution_def numberToString_small)

subsection \<open>C5: scenario C, two independent books in hedge mode\<close>

text \<open>
  C5. On the symbol \<open>Y\<close>, for order1 (a buy of 1 at time 0, annotated LONG), order2 (a
  sell of 1 at time 1, annotated SHORT) and order3 (a buy of 1 at time 2, annotated
  SHORT), whatever the prices, costs, commissions and execution identifiers, the
  hedge-mode calculator returns exactly two sessions: a short one, closed, whose trades
  are those of order2 and order3, and a long one, open, whose only trade is that of
  order1. The closed short session comes first, being the more recent.
\<close>

theorem scenarioC_independent_books:
  "map (\<lambda>s. (sSymbol s, sSide s, status s, openTime s, closeTime s, trades s))
     (calculateBinancePositionSessions fmt
       [tradeExecution i1 ''order1'' ''Y'' ''Buy'' 1 p1 c1 m1 0 ''positionSide:LONG'',
        tradeExecution i2 ''order2'' ''Y'' ''Sell'' 1 p2 c2 m2 1 ''positionSide:SHORT'',
        tradeExecution i3 ''order3'' ''Y'' ''Buy'' 1 p3 c3 m3 2 ''positionSide:SHORT'']) =
   [(''Y'', Short, Closed, 1, Some 2,
      [toTrade fmt ''USDT''
         (tradeExecution i2 ''order2'' ''Y'' ''Sell'' 1 p2 c2 m2 1 ''positionSide:SHORT''),
       toTrade fmt ''USDT''
         (tradeExecution i3 ''order3'' ''Y'' ''Buy'' 1 p3 c3 m3 2 ''positionSide:SHORT'')]),
    (''Y'', Long, Open, 0, None,
      [toTrade fmt ''USDT''
         (tradeExecution i1 ''order1'' ''Y'' ''Buy'' 1 p1 c1 m1 0 ''positionSide:LONG'')])]"
  by (simp add: hedge_defs tradeExecution_def parse_tags toTrade_def)

subsection \<open>The trades of the emitted sessions\<close>

lemma sessionTrades_append [simp]:
  "sessionTrades (xs @ ys) = sessionTrades xs + sessionTrades ys"
  by (simp add: sessionTrades_def)

lemma sessionTrades_emptyOut [simp]: "sessionTrades (allSessions emptyOut) = {#}"
  by (simp add: sessionTrades_def emptyOut_def)

lemma sessionTrades_closeSession:
  "sessionTrades (allSessions (closeSession fmt symb st t p out)) =
   sessionTrades (allSessions out) +
   (if sessionStartTime st \<noteq> None \<and> sessionExecutions st \<noteq> []
    then mset (map (toTrade fmt ''XBT'') (sessionExecutions st)) else {#})"
  by (simp add: closeSession_def sessionTrades_def Let_def split: option.split)

lemma applyExec_fields:
  "runningPosition (applyExec st e) = nextPosition (runningPosition st) e"
  "sessionExecutions (applyExec st e) = sessionExecutions st @ [e]"
  "sessionStartTime (applyExec st e) = sessionStartTime st"
  by (simp_all add: applyExec_def nextPosition_def Let_def)

lemma checkStart_fields:
  "runningPosition (checkStart b e st) = runningPosition st"
  "sessionExecutions (checkStart b e st) = sessionExecutions st"
  "sessionStartTime (checkStart b e st) =
     (if b = 0 \<and> runningPosition st \<noteq> 0 then Some (timestamp e) else sessionStartTime st)"
  by (simp_all add: checkStart_def)

lemma step_position:
  "runningPosition (fst (processExecution fmt symb (st, out) e)) = nextPosition (runningPosition st) e"
  by (simp add: processExecution_def checkFlip_def checkEnd_def Let_def resetSession_def
      applyExec_fields checkStart_fields)

lemma isFlip_nonzero: "isFlip b p \<Longrightarrow> b \<noteq> 0 \<and> p \<noteq> 0"
  by (auto simp: isFlip_def)

lemma isFlip_zero [simp]: "\<not> isFlip b 0" "\<not> isFlip 0 p"
  by (simp_all add: isFlip_def)

lemma step_pending:
  assumes "invOK st" "lastQty e > 0"
  shows "pending fmt (processExecution fmt symb (st, out) e) =
         pending fmt (st, out) + {#toTrade fmt ''XBT'' e#} +
         (if isFlip (runningPosition st) (nextPosition (runningPosition st) e)
          then {#toTrade fmt ''XBT'' e#} else {#})"
proof (cases "isFlip (runningPosition st) (nextPosition (runningPosition st) e)")
  case True
  then have nz: "runningPosition st \<noteq> 0" "nextPosition (runningPosition st) e \<noteq> 0"
    by (auto dest: isFlip_nonzero)
  with assms have "sessionStartTime st \<noteq> None" by (simp add: invOK_def)
  with True nz show ?thesis
    by (simp add: pending_def processExecution_def checkFlip_def checkEnd_def Let_def
        resetSession_def applyExec_fields checkStart_fields sessionTrades_closeSession)
next
  case False
  show ?thesis
  proof (cases "runningPosition st = 0")
    case True
    with assms have "nextPosition (runningPosition st) e \<noteq> 0"
      by (auto simp: nextPosition_def)
    with True False assms show ?thesis
      by (simp add: pending_def processExecution_def checkFlip_def checkEnd_def Let_def
          resetSession_def applyExec_fields checkStart_fields sessionTrades_closeSession invOK_def)
  next
    case nz: False
    with assms have "sessionStartTime st \<noteq> None" by (simp add: invOK_def)
    with nz False show ?thesis
      by (simp add: pending_def processExecution_def checkFlip_def checkEnd_def Let_def
          resetSession_def applyExec_fields checkStart_fields sessionTrades_closeSession)
  qed
qed

lemma step_invOK:
  assumes "invOK st" "lastQty e > 0"
  shows "invOK (fst (processExecution fmt symb (st, out) e))"
proof (cases "runningPosition st = 0")
  case True
  with assms have "nextPosition (runningPosition st) e \<noteq> 0"
    by (auto simp: nextPosition_def)
  with True show ?thesis
    by (simp add: invOK_def processExecution_def checkFlip_def checkEnd_def Let_def
        resetSession_def applyExec_fields checkStart_fields isFlip_def)
next
  case False
  with assms have "sessionStartTime st \<noteq> None" by (simp add: invOK_def)
  with False show ?thesis
    by (simp add: invOK_def processExecution_def checkFlip_def checkEnd_def Let_def
        resetSession_def applyExec_fields checkStart_fields)
qed

lemma fold_pending:
  assumes "invOK (fst so)" "\<forall>e\<in>set es. lastQty e > 0"
  shows "pending fmt (foldl (processExecution fmt symb) so es) =
           pending fmt so + image_mset (toTrade fmt ''XBT'') (mset es) +
           image_mset (toTrade fmt ''XBT'') (mset (flipsFrom (runningPosition (fst so)) es)) \<and>
         invOK (fst (foldl (processExecution fmt symb) so es))"
  using assms
proof (induction es arbitrary: so)
  case Nil
  then show ?case by simp
next
  case (Cons e es)
  obtain st out where so: "so = (st, out)" by (cases so)
  let ?so' = "processExecution fmt symb (st, out) e"
  from Cons.prems so have ok: "invOK st" and q: "lastQty e > 0" by simp_all
  have ok': "invOK (fst ?so')" by (rule step_invOK[OF ok q])
  from Cons.prems have "\<forall>e\<in>set es. lastQty e > 0" by simp
  from Cons.IH[OF ok' this] step_pending[OF ok q, of fmt symb out] show ?case
    by (simp add: so step_position)
qed

lemma finish_pending:
  assumes "invOK st"
  shows "sessionTrades (allSessions (finishSymbol fmt symb (st, out))) = pending fmt (st, out)"
  using assms
  by (auto simp: finishSymbol_def pending_def invOK_def sessionTrades_closeSession)

lemma invOK_init: "invOK initInv"
  by (simp add: invOK_def initInv_def)

lemma processSymbol_trades:
  assumes "\<forall>e\<in>set es. lastQty e > 0"
  shows "sessionTrades (allSessions (processSymbol fmt out (symb, es))) =
           sessionTrades (allSessions out) + image_mset (toTrade fmt ''XBT'') (mset es) +
           image_mset (toTrade fmt ''XBT'') (mset (flipsFrom 0 (sortBy byTimestamp es)))"
proof -
  let ?es = "sortBy byTimestamp es"
  let ?so = "foldl (processExecution fmt symb) (initInv, out) ?es"
  have pos: "\<forall>e\<in>set ?es. lastQty e > 0" using assms by (simp add: set_sortBy)
  have "invOK (fst (initInv, out))" by (simp add: invOK_init)
  from fold_pending[OF this pos, of fmt symb]
  have p: "pending fmt ?so = pending fmt (initInv, out) + image_mset (toTrade fmt ''XBT'') (mset ?es) +
           image_mset (toTrade fmt ''XBT'') (mset (flipsFrom 0 ?es))"
    and ok: "invOK (fst ?so)"
    by (simp_all add: initInv_def)
  have "sessionTrades (allSessions (finishSymbol fmt symb ?so)) = pending fmt ?so"
    using finish_pending[of "fst ?so" fmt symb "snd ?so"] ok by simp
  with p show ?thesis
    by (simp add: processSymbol_def pending_def initInv_def mset_sortBy)
qed

lemma processSymbols_trades:
  assumes "\<forall>grp\<in>set groups. \<forall>e\<in>set (snd grp). lastQty e > 0"
  shows "sessionTrades (allSessions (foldl (processSymbol fmt) out groups)) =
           sessionTrades (allSessions out) +
           image_mset (toTrade fmt ''XBT'') (mset (concat (map snd groups))) +
           image_mset (toTrade fmt ''XBT'')
             (mset (concat (map (\<lambda>grp. flipsFrom 0 (sortBy byTimestamp (snd grp))) groups)))"
  using assms
proof (induction groups arbitrary: out)
  case Nil
  then show ?case by simp
next
  case (Cons grp groups)
  obtain symb es where grp: "grp = (symb, es)" by (cases grp)
  from Cons.prems grp have "\<forall>e\<in>set es. lastQty e > 0" by simp
  from processSymbol_trades[OF this, of fmt out symb] Cons.IH[of "processSymbol fmt out (symb, es)"] Cons.prems
  show ?case by (simp add: grp)
qed

lemma mset_upsert_push:
  "mset (concat (map snd (upsert m k [] (\<lambda>es. es @ [e])))) = add_mset e (mset (concat (map snd m)))"
  by (induction m) auto

lemma mset_grouping:
  "mset (concat (map snd (foldl (\<lambda>m e. upsert m (key e) [] (\<lambda>es. es @ [e])) m xs))) =
   mset (concat (map snd m)) + mset xs"
  by (induction xs arbitrary: m) (simp_all add: mset_upsert_push)

lemma mset_executionsBySymbol:
  "mset (concat (map snd (executionsBySymbol xs))) = mset xs"
  by (simp add: executionsBySymbol_def mset_grouping)

lemma sessionTrades_sortBy: "sessionTrades (sortBy cmp ss) = sessionTrades ss"
proof -
  have "sessionTrades ss = sum_list (map (\<lambda>s. mset (trades s)) ss)" for ss
    by (induction ss) (simp_all add: sessionTrades_def)
  moreover have "sum_list (map f (sortBy cmp ss)) = sum_list (map (f :: _ \<Rightarrow> Trade multiset) ss)" for f
    using mset_sortBy[of cmp ss] by (metis mset_map sum_mset_sum_list)
  ultimately show ?thesis by simp
qed

lemma inverse_trades_exact:
  "sessionTrades (calculateBitMEXPositionSessions fmt execs) =
     image_mset (toTrade fmt ''XBT'') (mset (filter isTradeExecution execs)) +
     image_mset (toTrade fmt ''XBT'') (mset (flipExecutions execs))"
proof -
  let ?groups = "executionsBySymbol (filter isTradeExecution execs)"
  have m: "mset (concat (map snd ?groups)) = mset (filter isTradeExecution execs)"
    by (rule mset_executionsBySymbol)
  have "\<forall>grp\<in>set ?groups. \<forall>e\<in>set (snd grp). lastQty e > 0"
  proof (intro ballI)
    fix grp e assume "grp \<in> set ?groups" "e \<in> set (snd grp)"
    then have "e \<in> set (concat (map snd ?groups))" by auto
    then have "e \<in># mset (concat (map snd ?groups))" by simp
    with m have "e \<in> set (filter isTradeExecution execs)" by (metis set_mset_mset)
    then show "lastQty e > 0" by (simp add: isTradeExecution_def)
  qed
  from processSymbols_trades[OF this, of fmt emptyOut] m show ?thesis
    by (simp add: calculateBitMEXPositionSessions_def sessionTrades_sortBy flipExecutions_def
        sessionTrades_emptyOut)
qed





lemma applyOrder_fields:
  "sessionOrders (applyOrder isShort was order st) = sessionOrders st @ [order]"
  "hRunningPosition (applyOrder isShort was order st) =
     hRunningPosition st + getPositionDelta isShort order"
  "lastOrderTime (applyOrder isShort was order st) = oTimestamp order"
  "hSessionStartTime (applyOrder isShort was order st) =
     (if was \<and> \<not> isBinancePositionClosed (hRunningPosition st + getPositionDelta isShort order) \<and>
         sessionOrders st = []
      then Some (oTimestamp order) else hSessionStartTime st)"
  by (simp_all add: applyOrder_def Let_def)













lemma set_flipsFrom: "set (flipsFrom pos es) \<subseteq> set es"
  by (induction es arbitrary: pos) auto

lemma set_flipExecutions: "set (flipExecutions execs) \<subseteq> set (filter isTradeExecution execs)"
proof
  fix e assume "e \<in> set (flipExecutions execs)"
  then obtain grp where g: "grp \<in> set (executionsBySymbol (filter isTradeExecution execs))"
    and e: "e \<in> set (flipsFrom 0 (sortBy byTimestamp (snd grp)))"
    by (auto simp: flipExecutions_def)
  from e set_flipsFrom[of 0 "sortBy byTimestamp (snd grp)"] have "e \<in> set (snd grp)"
    by (auto simp: set_sortBy)
  with g have "e \<in> set (concat (map snd (executionsBySymbol (filter isTradeExecution execs))))"
    by auto
  then have "e \<in># mset (concat (map snd (executionsBySymbol (filter isTradeExecution execs))))"
    by simp
  then show "e \<in> set (filter isTradeExecution execs)"
    by (simp only: mset_executionsBySymbol set_mset_mset)
qed
















subsection \<open>C2: the sessions an execution belongs to\<close>




subsection \<open>C6: the input filter of the inverse-contract calculator\<close>

text \<open>
  C6 (as stated, refuted). An execution of type \<open>Trade\<close> with a side, a positive
  quantity and an empty order identifier passes the filter, and the calculator emits a
  session whose only trade is that execution's.
\<close>

theorem empty_order_id_is_kept:
  "isTradeExecution (tradeExecution ''e1'' '''' ''XBTUSD'' ''Buy'' 1 50000 0 0 0 '''') \<and>
   orderID (tradeExecution ''e1'' '''' ''XBTUSD'' ''Buy'' 1 50000 0 0 0 '''') = [] \<and>
   map trades (calculateBitMEXPositionSessions (\<lambda>s. s)
     [tradeExecution ''e1'' '''' ''XBTUSD'' ''Buy'' 1 50000 0 0 0 '''']) =
   [[toTrade (\<lambda>s. s) ''XBT'' (tradeExecution ''e1'' '''' ''XBTUSD'' ''Buy'' 1 50000 0 0 0 '''')]]"
  by (simp add: inverse_defs tradeExecution_def numberToString_small)

text \<open>
  C6 (amended). The filter of the inverse-contract calculator keeps exactly the
  executions of type \<open>Trade\<close> with a non-empty side and a positive quantity; the order
  identifier plays no part. The trades that occur in the emitted sessions are exactly
  the trades of the kept executions, and the result is the same as on the input
  without the dropped executions.
\<close>

theorem inverse_filter_kept:
  "set_mset (sessionTrades (calculateBitMEXPositionSessions fmt execs)) =
     toTrade fmt ''XBT'' ` {e \<in> set execs. execType e = ''Trade'' \<and> side e \<noteq> [] \<and> 0 < lastQty e} \<and>
   calculateBitMEXPositionSessions fmt execs =
     calculateBitMEXPositionSessions fmt
       (filter (\<lambda>e. execType e = ''Trade'' \<and> side e \<noteq> [] \<and> 0 < lastQty e) execs)"
proof
  have k: "{e \<in> set execs. execType e = ''Trade'' \<and> side e \<noteq> [] \<and> 0 < lastQty e} =
           set (filter isTradeExecution execs)"
    by (auto simp: isTradeExecution_def)
  have "set_mset (sessionTrades (calculateBitMEXPositionSessions fmt execs)) =
        toTrade fmt ''XBT'' ` set (filter isTradeExecution execs) \<union>
        toTrade fmt ''XBT'' ` set (flipExecutions execs)"
    by (simp add: inverse_trades_exact)
  also have "\<dots> = toTrade fmt ''XBT'' ` set (filter isTradeExecution execs)"
    using set_flipExecutions[of execs] by blast
  finally show "set_mset (sessionTrades (calculateBitMEXPositionSessions fmt execs)) =
     toTrade fmt ''XBT'' ` {e \<in> set execs. execType e = ''Trade'' \<and> side e \<noteq> [] \<and> 0 < lastQty e}"
    by (simp only: k)
next
  have "filter isTradeExecution (filter (\<lambda>e. execType e = ''Trade'' \<and> side e \<noteq> [] \<and> 0 < lastQty e) execs) =
        filter isTradeExecution execs"
    by (induction execs) (simp_all add: isTradeExecution_def)
  then show "calculateBitMEXPositionSessions fmt execs =
     calculateBitMEXPositionSessions fmt
       (filter (\<lambda>e. execType e = ''Trade'' \<and> side e \<noteq> [] \<and> 0 < lastQty e) execs)"
    by (simp add: calculateBitMEXPositionSessions_def)
qed

subsection \<open>The fees of the emitted sessions\<close>

lemma feeCost_toTrade [simp]: "feeCost (toTrade fmt cur e) = execComm e"
  by (simp add: toTrade_def)

lemma closeSession_feesOK:
  assumes "commOK st" "\<forall>s\<in>set (allSessions out). feesOK s"
  shows "\<forall>s\<in>set (allSessions (closeSession fmt symb st t p out)). feesOK s"
  using assms
  by (auto simp: closeSession_def Let_def feesOK_def commOK_def comp_def split: option.split)

lemma commOK_applyExec: "commOK st \<Longrightarrow> commOK (applyExec st e)"
  by (simp add: commOK_def applyExec_def Let_def)

lemma commOK_checkStart: "commOK st \<Longrightarrow> commOK (checkStart b e st)"
  by (simp add: commOK_def checkStart_def)

lemma commOK_resetSession: "commOK (resetSession st)"
  by (simp add: commOK_def resetSession_def)

lemma checkEnd_feesOK:
  assumes "commOK st" "\<forall>s\<in>set (allSessions out). feesOK s"
  shows "commOK (fst (checkEnd fmt symb b e (st, out))) \<and>
         (\<forall>s\<in>set (allSessions (snd (checkEnd fmt symb b e (st, out)))). feesOK s)"
  using assms closeSession_feesOK[OF assms]
  by (simp add: checkEnd_def commOK_resetSession)

lemma checkFlip_feesOK:
  assumes "commOK st" "\<forall>s\<in>set (allSessions out). feesOK s"
  shows "commOK (fst (checkFlip fmt symb b e (st, out))) \<and>
         (\<forall>s\<in>set (allSessions (snd (checkFlip fmt symb b e (st, out)))). feesOK s)"
proof (cases "isFlip b (runningPosition st)")
  case False
  with assms show ?thesis by (simp add: checkFlip_def)
next
  case True
  let ?adj = "if side e = ''Buy''
              then st\<lparr>accTotalBought := accTotalBought st - \<bar>runningPosition st\<bar>,
                      accTotalBuyCost := accTotalBuyCost st - \<bar>runningPosition st\<bar> * lastPx e\<rparr>
              else st\<lparr>accTotalSold := accTotalSold st - \<bar>runningPosition st\<bar>,
                      accTotalSellCost := accTotalSellCost st - \<bar>runningPosition st\<bar> * lastPx e\<rparr>"
  have "commOK ?adj" using assms(1) by (simp add: commOK_def)
  from closeSession_feesOK[OF this assms(2)] True show ?thesis
    by (simp add: checkFlip_def Let_def commOK_def resetSession_def)
qed

lemma processExecution_feesOK:
  assumes "commOK (fst so)" "\<forall>s\<in>set (allSessions (snd so)). feesOK s"
  shows "commOK (fst (processExecution fmt symb so e)) \<and>
         (\<forall>s\<in>set (allSessions (snd (processExecution fmt symb so e))). feesOK s)"
proof -
  obtain st out where so: "so = (st, out)" by (cases so)
  let ?b = "runningPosition st"
  let ?st1 = "checkStart ?b e (applyExec st e)"
  have c1: "commOK ?st1" using assms(1) so by (simp add: commOK_applyExec commOK_checkStart)
  obtain st2 out2 where e2: "checkEnd fmt symb ?b e (?st1, out) = (st2, out2)"
    by (cases "checkEnd fmt symb ?b e (?st1, out)")
  from checkEnd_feesOK[OF c1, of out fmt symb ?b e] assms(2) so e2
  have "commOK st2" "\<forall>s\<in>set (allSessions out2). feesOK s" by simp_all
  from checkFlip_feesOK[OF this, of fmt symb ?b e] show ?thesis
    by (simp add: processExecution_def so Let_def e2)
qed

lemma fold_feesOK:
  assumes "commOK (fst so)" "\<forall>s\<in>set (allSessions (snd so)). feesOK s"
  shows "commOK (fst (foldl (processExecution fmt symb) so es)) \<and>
         (\<forall>s\<in>set (allSessions (snd (foldl (processExecution fmt symb) so es))). feesOK s)"
  using assms
proof (induction es arbitrary: so)
  case Nil
  then show ?case by simp
next
  case (Cons e es)
  from processExecution_feesOK[OF Cons.prems, of fmt symb e]
  have a: "commOK (fst (processExecution fmt symb so e))"
    and b: "\<forall>s\<in>set (allSessions (snd (processExecution fmt symb so e))). feesOK s"
    by simp_all
  from Cons.IH[OF a b] show ?case by simp
qed

lemma processSymbol_feesOK:
  assumes "\<forall>s\<in>set (allSessions out). feesOK s"
  shows "\<forall>s\<in>set (allSessions (processSymbol fmt out grp)). feesOK s"
proof -
  obtain symb es where grp: "grp = (symb, es)" by (cases grp)
  let ?so = "foldl (processExecution fmt symb) (initInv, out) (sortBy byTimestamp es)"
  have "commOK (fst (initInv, out))" by (simp add: commOK_def initInv_def)
  from fold_feesOK[OF this, of fmt symb "sortBy byTimestamp es"] assms
  have c: "commOK (fst ?so)" and f: "\<forall>s\<in>set (allSessions (snd ?so)). feesOK s" by simp_all
  from closeSession_feesOK[OF c f] f show ?thesis
    by (simp add: processSymbol_def grp finishSymbol_def split_beta)
qed

lemma processSymbols_feesOK:
  assumes "\<forall>s\<in>set (allSessions out). feesOK s"
  shows "\<forall>s\<in>set (allSessions (foldl (processSymbol fmt) out groups)). feesOK s"
  using assms
proof (induction groups arbitrary: out)
  case Nil
  then show ?case by simp
next
  case (Cons grp groups)
  from Cons.IH[OF processSymbol_feesOK[OF Cons.prems, of fmt grp]] show ?case by simp
qed

lemma inverse_feesOK:
  "\<forall>s\<in>set (calculateBitMEXPositionSessions fmt execs). feesOK s"
  using processSymbols_feesOK[of emptyOut fmt "executionsBySymbol (filter isTradeExecution execs)"]
  by (simp add: calculateBitMEXPositionSessions_def set_sortBy emptyOut_def)

lemma sumWhere_sum_list:
  "sumWhere p f orders = sum_list (map f (filter p orders))"
proof -
  have "foldl (\<lambda>acc order. if p order then acc + f order else acc) a orders =
        a + sum_list (map f (filter p orders))" for a
    by (induction orders arbitrary: a) (simp_all add: add.assoc)
  then show ?thesis by (simp add: sumWhere_def)
qed

lemma sum_list_sortBy:
  "sum_list (map f (sortBy cmp xs)) = sum_list (map (f :: 'a \<Rightarrow> rat) xs)"
proof -
  have "sum_list (map f ys) = sum_mset (image_mset f (mset ys))" for ys
    by (metis mset_map sum_mset_sum_list)
  then show ?thesis by (simp add: mset_sortBy)
qed

lemma fees_tradesOf:
  assumes "\<forall>order\<in>set orders. orderOK order"
  shows "sum_list (map feeCost (tradesOf fmt orders)) = sum_list (map totalComm orders)"
  using assms
  by (induction orders) (simp_all add: tradesOf_def sum_list_sortBy orderOK_def comp_def)

lemma closeSessionB_feesOK:
  assumes "\<forall>order\<in>set (sessionOrders st). orderOK order" "\<forall>s\<in>set (allSessions out). feesOK s"
  shows "\<forall>s\<in>set (allSessions (closeSessionB fmt symb posSide isShort st t out)). feesOK s"
  using assms fees_tradesOf[OF assms(1), of fmt]
  by (auto simp: closeSessionB_def Let_def feesOK_def sumWhere_sum_list split: option.split)

lemma checkGap_feesInvB:
  assumes "feesInvB so"
  shows "feesInvB (checkGap fmt symb posSide isShort order so)"
proof -
  obtain st out where so: "so = (st, out)" by (cases so)
  from assms so have a: "\<forall>order\<in>set (sessionOrders st). orderOK order"
    and b: "\<forall>s\<in>set (allSessions out). feesOK s"
    by (simp_all add: feesInvB_def)
  from a b closeSessionB_feesOK[OF a b] show ?thesis
    by (simp add: so feesInvB_def checkGap_def resetSessionB_def)
qed

lemma checkEndB_feesInvB:
  assumes "feesInvB so"
  shows "feesInvB (checkEndB fmt symb posSide isShort was order so)"
proof -
  obtain st out where so: "so = (st, out)" by (cases so)
  from assms so have a: "\<forall>order\<in>set (sessionOrders st). orderOK order"
    and b: "\<forall>s\<in>set (allSessions out). feesOK s"
    by (simp_all add: feesInvB_def)
  from a b closeSessionB_feesOK[OF a b] show ?thesis
    by (simp add: so feesInvB_def checkEndB_def resetSessionB_def)
qed

lemma processOrder_feesInvB:
  assumes "feesInvB so" "orderOK order"
  shows "feesInvB (processOrder fmt symb posSide isShort so order)"
proof -
  obtain st out where g: "checkGap fmt symb posSide isShort order so = (st, out)"
    by (cases "checkGap fmt symb posSide isShort order so")
  from checkGap_feesInvB[OF assms(1), of fmt symb posSide isShort order] g
  have "feesInvB (st, out)" by simp
  with assms(2) have "feesInvB (applyOrder isShort was order st, out)" for was
    by (simp add: feesInvB_def applyOrder_fields)
  then show ?thesis
    by (simp add: processOrder_def Let_def g checkEndB_feesInvB)
qed

lemma fold_feesInvB:
  assumes "feesInvB so" "\<forall>order\<in>set orders. orderOK order"
  shows "feesInvB (foldl (processOrder fmt symb posSide isShort) so orders)"
  using assms
  by (induction orders arbitrary: so) (simp_all add: processOrder_feesInvB)

lemma processOrders_feesOK:
  assumes "\<forall>s\<in>set (allSessions out). feesOK s" "\<forall>order\<in>set orders. orderOK order"
  shows "\<forall>s\<in>set (allSessions (processOrders fmt symb posSide isShort out orders)). feesOK s"
proof -
  let ?so = "foldl (processOrder fmt symb posSide isShort) (initHedge, out) orders"
  have "feesInvB (initHedge, out)" using assms(1) by (simp add: feesInvB_def initHedge_def)
  from fold_feesInvB[OF this assms(2), of fmt symb posSide isShort]
  have "feesInvB ?so" .
  then have a: "\<forall>order\<in>set (sessionOrders (fst ?so)). orderOK order"
    and b: "\<forall>s\<in>set (allSessions (snd ?so)). feesOK s"
    by (simp_all add: feesInvB_def)
  from b closeSessionB_feesOK[OF a b] show ?thesis
    by (simp add: processOrders_def finishKey_def split_beta)
qed

lemma orderOK_addExecution:
  "orderOK (addExecution e (newOrder posSide e))"
  "orderOK order \<Longrightarrow> orderOK (addExecution e order)"
  by (simp_all add: orderOK_def newOrder_def addExecution_def)

lemma upsert_values:
  "snd ` set (upsert m k init f) \<subseteq> snd ` set m \<union> {f init} \<union> f ` snd ` set m"
  by (induction m) (force split: if_splits)+

lemma upsert_orderOK:
  assumes "\<forall>order\<in>snd ` set m. orderOK order"
  shows "\<forall>order\<in>snd ` set (upsert m k (newOrder posSide e) (addExecution e)). orderOK order"
proof
  fix order
  assume "order \<in> snd ` set (upsert m k (newOrder posSide e) (addExecution e))"
  with upsert_values[of m k "newOrder posSide e" "addExecution e"]
  have "order \<in> snd ` set m \<or> order = addExecution e (newOrder posSide e) \<or>
        order \<in> addExecution e ` snd ` set m"
    by blast
  with assms show "orderOK order"
    by (auto simp: orderOK_addExecution)
qed

lemma orderMap_orderOK:
  assumes "\<forall>order\<in>snd ` set m. orderOK order"
  shows "\<forall>order\<in>snd ` set (foldl (\<lambda>m e. upsert m (orderID e) (newOrder posSide e) (addExecution e)) m es).
           orderOK order"
  using assms
proof (induction es arbitrary: m)
  case Nil
  then show ?case by simp
next
  case (Cons e es)
  from Cons.IH[OF upsert_orderOK[OF Cons.prems, of "orderID e" posSide e]] show ?case by simp
qed

lemma sortedOrders_orderOK:
  "\<forall>order\<in>set (sortedOrders posSide es). orderOK order"
proof -
  have "orderOK (setAvgPrice order) = orderOK order" for order
    by (simp add: orderOK_def setAvgPrice_def)
  moreover have "\<forall>order\<in>snd ` set (orderMap posSide es). orderOK order"
    unfolding orderMap_def by (rule orderMap_orderOK) simp
  ultimately show ?thesis
    by (auto simp: sortedOrders_def set_sortBy)
qed

lemma processKey_feesOK:
  assumes "\<forall>s\<in>set (allSessions out). feesOK s"
  shows "\<forall>s\<in>set (allSessions (processKey fmt out grp)). feesOK s"
  using processOrders_feesOK[OF assms sortedOrders_orderOK]
  by (simp add: processKey_def split_beta)

lemma processKeys_feesOK:
  assumes "\<forall>s\<in>set (allSessions out). feesOK s"
  shows "\<forall>s\<in>set (allSessions (foldl (processKey fmt) out groups)). feesOK s"
  using assms
proof (induction groups arbitrary: out)
  case Nil
  then show ?case by simp
next
  case (Cons grp groups)
  from Cons.IH[OF processKey_feesOK[OF Cons.prems, of fmt grp]] show ?case by simp
qed

lemma hedge_feesOK:
  "\<forall>s\<in>set (calculateBinancePositionSessions fmt execs). feesOK s"
  using processKeys_feesOK[of emptyOut fmt "executionsByKey (filter isTradeExecution execs)"]
  by (simp add: calculateBinancePositionSessions_def set_sortBy emptyOut_def)

subsection \<open>C9: fees are never negative\<close>

text \<open>
  C9. For every input and whatever the signs of the commissions, every session that
  either calculator emits has non-negative total fees: they are the absolute value of
  the sum of the commissions of the session's trades, divided by 10^8.
\<close>

theorem fees_nonnegative:
  "\<forall>s\<in>set (calculateBitMEXPositionSessions fmt execs) \<union>
          set (calculateBinancePositionSessions fmt execs).
     0 \<le> totalFees s \<and> totalFees s = \<bar>sum_list (map feeCost (trades s))\<bar> / 100000000"
  using inverse_feesOK[of fmt execs] hedge_feesOK[of fmt execs]
  by (auto simp: feesOK_def)

text \<open>Witness: an execution with a negative commission yields a session, whose fees are
  not negative.\<close>

theorem fees_nonnegative_witness:
  "hd (calculateBitMEXPositionSessions (\<lambda>s. s)
         [tradeExecution ''e1'' ''o1'' ''XBTUSD'' ''Buy'' 1 50000 0 (- 25000) 0 ''''])
     \<in> set (calculateBitMEXPositionSessions (\<lambda>s. s)
         [tradeExecution ''e1'' ''o1'' ''XBTUSD'' ''Buy'' 1 50000 0 (- 25000) 0 '''']) \<and>
   0 \<le> totalFees (hd (calculateBitMEXPositionSessions (\<lambda>s. s)
         [tradeExecution ''e1'' ''o1'' ''XBTUSD'' ''Buy'' 1 50000 0 (- 25000) 0 '''']))"
proof -
  let ?ss = "calculateBitMEXPositionSessions (\<lambda>s. s)
         [tradeExecution ''e1'' ''o1'' ''XBTUSD'' ''Buy'' 1 50000 0 (- 25000) 0 '''']"
  have "?ss \<noteq> []"
    by (simp add: inverse_defs tradeExecution_def numberToString_small)
  then have h: "hd ?ss \<in> set ?ss" by simp
  with fees_nonnegative[of "\<lambda>s. s" "[tradeExecution ''e1'' ''o1'' ''XBTUSD'' ''Buy'' 1 50000 0 (- 25000) 0 '''']"]
  show ?thesis by blast
qed

subsection \<open>C7: the dispatcher\<close>

lemma startsWith_iff: "startsWith s p = (\<exists>q. s = p @ q)"
  by (induction s p rule: startsWith.induct) auto

lemma stringIncludes_iff: "stringIncludes s sub = (\<exists>p q. s = p @ sub @ q)"
proof (induction s)
  case Nil
  then show ?case by simp
next
  case (Cons c cs)
  have "(\<exists>p q. c # cs = p @ sub @ q) = ((\<exists>q. c # cs = sub @ q) \<or> (\<exists>p q. cs = p @ sub @ q))"
  proof
    assume "\<exists>p q. c # cs = p @ sub @ q"
    then obtain p q where pq: "c # cs = p @ sub @ q" by blast
    show "(\<exists>q. c # cs = sub @ q) \<or> (\<exists>p q. cs = p @ sub @ q)"
    proof (cases p)
      case Nil
      with pq show ?thesis by auto
    next
      case (Cons a p')
      with pq have "cs = p' @ sub @ q" by simp
      then show ?thesis by blast
    qed
  next
    assume "(\<exists>q. c # cs = sub @ q) \<or> (\<exists>p q. cs = p @ sub @ q)"
    then show "\<exists>p q. c # cs = p @ sub @ q"
    proof
      assume "\<exists>q. c # cs = sub @ q"
      then obtain q where "c # cs = [] @ sub @ q" by auto
      then show ?thesis by blast
    next
      assume "\<exists>p q. cs = p @ sub @ q"
      then obtain p q where "c # cs = (c # p) @ sub @ q" by auto
      then show ?thesis by blast
    qed
  qed
  with Cons show ?case by (simp add: startsWith_iff)
qed

lemma swap_tags:
  "parsePositionSideFromText [] = ''BOTH''"
  "parseRealizedPnlFromText [] = 0"
  "keyParts ''BTC-USD-SWAP:BOTH'' = (''BTC-USD-SWAP'', ''BOTH'')"
  "stringIncludes ''BTC-USD-SWAP'' ''-SWAP''"
  by code_simp+

text \<open>
  C7 (as stated, refuted). With the hint \<open>bitmex\<close> and a first symbol
  \<open>BTC-USD-SWAP\<close> the dispatcher does not route by the hint: its result is that of
  the hedge-mode calculator, which differs from that of the inverse-contract calculator
  on this input (whatever \<open>isBinanceSymbol\<close> answers; here it answers no).
\<close>

theorem hint_does_not_decide:
  "calculatePositionSessionsFromExecutions (\<lambda>s. s) (\<lambda>s. False)
     [tradeExecution ''e1'' ''o1'' ''BTC-USD-SWAP'' ''Buy'' 1 50000 0 0 0 ''''] (Some ''bitmex'') =
   calculateBinancePositionSessions (\<lambda>s. s)
     [tradeExecution ''e1'' ''o1'' ''BTC-USD-SWAP'' ''Buy'' 1 50000 0 0 0 ''''] \<and>
   calculateBinancePositionSessions (\<lambda>s. s)
     [tradeExecution ''e1'' ''o1'' ''BTC-USD-SWAP'' ''Buy'' 1 50000 0 0 0 ''''] \<noteq>
   calculateBitMEXPositionSessions (\<lambda>s. s)
     [tradeExecution ''e1'' ''o1'' ''BTC-USD-SWAP'' ''Buy'' 1 50000 0 0 0 '''']"
proof -
  let ?in = "[tradeExecution ''e1'' ''o1'' ''BTC-USD-SWAP'' ''Buy'' 1 50000 0 0 0 '''']"
  have h: "map sid (calculateBinancePositionSessions (\<lambda>s. s) ?in) = [''BTC-USD-SWAP-BOTH-0'']"
    by (simp add: hedge_defs tradeExecution_def swap_tags numberToString_small)
  have i: "map sid (calculateBitMEXPositionSessions (\<lambda>s. s) ?in) = [''BTC-USD-SWAP-0'']"
    by (simp add: inverse_defs tradeExecution_def numberToString_small)
  have ne: "calculateBinancePositionSessions (\<lambda>s. s) ?in \<noteq>
            calculateBitMEXPositionSessions (\<lambda>s. s) ?in"
  proof
    assume "calculateBinancePositionSessions (\<lambda>s. s) ?in =
            calculateBitMEXPositionSessions (\<lambda>s. s) ?in"
    then have "map sid (calculateBinancePositionSessions (\<lambda>s. s) ?in) =
               map sid (calculateBitMEXPositionSessions (\<lambda>s. s) ?in)"
      by (rule arg_cong)
    then have "[''BTC-USD-SWAP-BOTH-0''] = [''BTC-USD-SWAP-0'']"
      by (simp only: h i)
    then show False by simp
  qed
  have d: "calculatePositionSessionsFromExecutions (\<lambda>s. s) (\<lambda>s. False) ?in (Some ''bitmex'') =
     calculateBinancePositionSessions (\<lambda>s. s) ?in"
    by (simp add: calculatePositionSessionsFromExecutions_def useHedgeCalculator_def
        tradeExecution_def swap_tags)
  from d ne show ?thesis by (rule conjI)
qed

text \<open>
  C7 (amended). The dispatcher classifies once per call. The empty list yields the empty
  output. A non-empty list goes to the hedge-mode calculator when the hint is
  \<open>binance\<close> or \<open>okx\<close>, or when the first execution's symbol has a hedge-mode shape
  (\<open>isBinanceSymbol\<close> accepts it, or it contains \<open>-SWAP\<close> or \<open>-USDT-\<close>); the symbol
  is inspected whether a hint is supplied or not. All other input goes to the
  inverse-contract calculator.
\<close>

theorem dispatcher_routing:
  "calculatePositionSessionsFromExecutions fmt isBinanceSymbol [] exchangeId = [] \<and>
   calculatePositionSessionsFromExecutions fmt isBinanceSymbol (e # es) exchangeId =
     (if exchangeId = Some ''binance'' \<or> exchangeId = Some ''okx'' \<or> isBinanceSymbol (symbol e) \<or>
         (\<exists>p q. symbol e = p @ ''-SWAP'' @ q) \<or> (\<exists>p q. symbol e = p @ ''-USDT-'' @ q)
      then calculateBinancePositionSessions fmt (e # es)
      else calculateBitMEXPositionSessions fmt (e # es))"
  by (auto simp: calculatePositionSessionsFromExecutions_def useHedgeCalculator_def
      stringIncludes_iff)

subsection \<open>Invariants of the hedge-mode loop\<close>

lemma netPosition_Nil [simp]: "netPosition isShort [] = 0"
  by (simp add: netPosition_def sumWhere_def)

lemma netPosition_snoc:
  "netPosition isShort (orders @ [order]) = netPosition isShort orders + getPositionDelta isShort order"
  by (simp add: netPosition_def sumWhere_sum_list getPositionDelta_def isOpening_def)

lemma closed_zero [simp]: "isBinancePositionClosed 0"
  by (simp add: isBinancePositionClosed_def BINANCE_POSITION_TOLERANCE_def)

lemma resetSessionB_fields [simp]:
  "sessionOrders (resetSessionB st) = []"
  "hSessionStartTime (resetSessionB st) = None"
  "hRunningPosition (resetSessionB st) = 0"
  "lastOrderTime (resetSessionB st) = lastOrderTime st"
  by (simp_all add: resetSessionB_def)

lemma fst_checkGap:
  "fst (checkGap fmt symb posSide isShort order (st, out)) =
     (if gapFires st order then resetSessionB st else st)"
  by (simp add: checkGap_def)

lemma fst_checkEndB:
  "fst (checkEndB fmt symb posSide isShort was order (st, out)) =
     (if \<not> was \<and> isBinancePositionClosed (hRunningPosition st) then resetSessionB st else st)"
  by (simp add: checkEndB_def)

lemma fst_processOrder:
  "fst (processOrder fmt symb posSide isShort (st, out) order) =
     (let was = isBinancePositionClosed (hRunningPosition st);
          st2 = applyOrder isShort was order (if gapFires st order then resetSessionB st else st)
      in if \<not> was \<and> isBinancePositionClosed (hRunningPosition st2) then resetSessionB st2 else st2)"
  by (simp add: processOrder_def Let_def split_beta fst_checkGap fst_checkEndB)

lemma hedgeInv_init: "hedgeInv isShort initHedge"
  by (simp add: hedgeInv_def initHedge_def)

lemma hedgeInv_reset: "hedgeInv isShort (resetSessionB st)"
  by (simp add: hedgeInv_def)

lemma hedgeInv_step:
  assumes "hedgeInv isShort st"
  shows "hedgeInv isShort (fst (processOrder fmt symb posSide isShort (st, out) order))"
proof -
  let ?was = "isBinancePositionClosed (hRunningPosition st)"
  let ?st1 = "if gapFires st order then resetSessionB st else st"
  have i1: "hedgeInv isShort ?st1" using assms by (simp add: hedgeInv_reset)
  have w: "?was \<longrightarrow> hSessionStartTime ?st1 = None"
    using assms by (auto simp: hedgeInv_def)
  have p: "?was \<longrightarrow> isBinancePositionClosed (hRunningPosition ?st1)" by simp
  let ?st2 = "applyOrder isShort ?was order ?st1"
  have "hRunningPosition ?st2 = netPosition isShort (sessionOrders ?st2)"
    using i1 by (simp add: hedgeInv_def applyOrder_fields netPosition_snoc)
  moreover have "hSessionStartTime ?st2 = None \<or>
       (\<not> isBinancePositionClosed (hRunningPosition ?st2) \<and> sessionOrders ?st2 \<noteq> []) \<or>
       (\<not> ?was \<and> isBinancePositionClosed (hRunningPosition ?st2))"
    using w by (auto simp: applyOrder_fields)
  ultimately show ?thesis
    by (auto simp: fst_processOrder Let_def hedgeInv_reset hedgeInv_def)
qed

lemma hedgeInv_fold:
  assumes "hedgeInv isShort (fst so)"
  shows "hedgeInv isShort (fst (foldl (processOrder fmt symb posSide isShort) so orders))"
  using assms
proof (induction orders arbitrary: so)
  case Nil
  then show ?case by simp
next
  case (Cons order orders)
  obtain st out where so: "so = (st, out)" by (cases so)
  from Cons.prems so have "hedgeInv isShort (fst (processOrder fmt symb posSide isShort so order))"
    by (simp add: hedgeInv_step)
  from Cons.IH[OF this] show ?case by simp
qed

lemmas order_defs = orderOf_def setAvgPrice_def addExecution_def newOrder_def tradeExecution_def

lemma groups_of_Y:
  "groupKey (tradeExecution i oid ''Y'' sd qty px c comm t ''positionSide:LONG'') = ''Y:LONG''"
  by (simp add: groupKey_def tradeExecution_def parse_tags)

lemma orderOf_fields:
  "oSide (orderOf posSide e) = side e"
  "totalQty (orderOf posSide e) = lastQty e"
  "oTimestamp (orderOf posSide e) = timestamp e"
  by (simp_all add: orderOf_def setAvgPrice_def addExecution_def newOrder_def)

subsection \<open>C8: the time-gap branch emits nothing\<close>

text \<open>
  C8. Take the loop over one key's orders, started in its initial state with any output
  so far and run over any list of orders. Whenever the time-gap condition holds for the
  next order (the gap since the previous order exceeds the threshold, orders are
  pending and the position is within the epsilon band), the pending accumulation has no
  session start time, the forced \<open>closeSession\<close> returns the output unchanged, and
  the time-gap check as a whole leaves the output as it was. Sessions are therefore
  appended only by the session-end check of an order and by the finalization at the
  end of the key's orders.
\<close>

theorem gap_close_never_emits:
  assumes "so = foldl (processOrder fmt symb posSide isShort) (initHedge, out0) pre"
    and "gapFires (fst so) order"
  shows "hSessionStartTime (fst so) = None \<and>
         closeSessionB fmt symb posSide isShort (fst so)
           (oTimestamp (last (sessionOrders (fst so)))) (snd so) = snd so \<and>
         snd (checkGap fmt symb posSide isShort order so) = snd so"
proof -
  have "hedgeInv isShort (fst so)"
    unfolding assms(1) by (rule hedgeInv_fold) (simp add: hedgeInv_init)
  with assms(2) have n: "hSessionStartTime (fst so) = None"
    by (auto simp: hedgeInv_def gapFires_def)
  then have c: "closeSessionB fmt symb posSide isShort (fst so) t (snd so) = snd so" for t
    by (simp add: closeSessionB_def)
  from n c show ?thesis
    by (cases so) (simp add: checkGap_def)
qed

text \<open>Witness: after an order of 0.005 at time 1, an order a millisecond more than two
  hours later meets the time-gap condition, and the check leaves the (empty) output
  unchanged.\<close>

theorem gap_close_never_emits_witness:
  "gapFires
     (fst (foldl (processOrder (\<lambda>s. s) ''Y'' ''LONG'' False) (initHedge, emptyOut)
        [orderOf ''LONG'' (tradeExecution ''e1'' ''o1'' ''Y'' ''Buy'' (1 / 200) 100 0 0 1 ''positionSide:LONG'')]))
     (orderOf ''LONG'' (tradeExecution ''e2'' ''o2'' ''Y'' ''Buy'' 1 100 0 0 7200002 ''positionSide:LONG'')) \<and>
   snd (checkGap (\<lambda>s. s) ''Y'' ''LONG'' False
     (orderOf ''LONG'' (tradeExecution ''e2'' ''o2'' ''Y'' ''Buy'' 1 100 0 0 7200002 ''positionSide:LONG''))
     (foldl (processOrder (\<lambda>s. s) ''Y'' ''LONG'' False) (initHedge, emptyOut)
        [orderOf ''LONG'' (tradeExecution ''e1'' ''o1'' ''Y'' ''Buy'' (1 / 200) 100 0 0 1 ''positionSide:LONG'')])) =
   emptyOut"
proof -
  let ?so = "foldl (processOrder (\<lambda>s. s) ''Y'' ''LONG'' False) (initHedge, emptyOut)
        [orderOf ''LONG'' (tradeExecution ''e1'' ''o1'' ''Y'' ''Buy'' (1 / 200) 100 0 0 1 ''positionSide:LONG'')]"
  let ?order = "orderOf ''LONG'' (tradeExecution ''e2'' ''o2'' ''Y'' ''Buy'' 1 100 0 0 7200002 ''positionSide:LONG'')"
  have g: "gapFires (fst ?so) ?order"
    by (simp add: hedge_defs order_defs)
  have o: "snd ?so = emptyOut"
    by (simp add: hedge_defs order_defs)
  from gap_close_never_emits[OF refl g] g o
  show ?thesis by simp
qed

subsection \<open>C4: a position that leaves the epsilon band\<close>

text \<open>
  C4 (what the code computes at the failing input). On one key, an order of 0.005 at
  time 0 followed by an order of 1 at time 1 moves the running position from 0.005,
  within the epsilon band, to 1.005, outside it. The first order is still pending then,
  so the session-start test, which requires that no order is pending, records no open
  time; the finalization at the end of the key's orders then finds no start time, and
  the calculator emits no session at all.
\<close>

theorem start_skipped_while_orders_pending:
  "sortedOrders ''LONG''
     [tradeExecution ''e1'' ''o1'' ''Y'' ''Buy'' (1 / 200) 100 0 0 0 ''positionSide:LONG'',
      tradeExecution ''e2'' ''o2'' ''Y'' ''Buy'' 1 100 0 0 1 ''positionSide:LONG''] =
     [orderOf ''LONG'' (tradeExecution ''e1'' ''o1'' ''Y'' ''Buy'' (1 / 200) 100 0 0 0 ''positionSide:LONG''),
      orderOf ''LONG'' (tradeExecution ''e2'' ''o2'' ''Y'' ''Buy'' 1 100 0 0 1 ''positionSide:LONG'')] \<and>
   isBinancePositionClosed (hRunningPosition (fst
     (foldl (processOrder (\<lambda>s. s) ''Y'' ''LONG'' False) (initHedge, emptyOut)
        [orderOf ''LONG'' (tradeExecution ''e1'' ''o1'' ''Y'' ''Buy'' (1 / 200) 100 0 0 0 ''positionSide:LONG'')]))) \<and>
   \<not> isBinancePositionClosed (hRunningPosition (fst
     (foldl (processOrder (\<lambda>s. s) ''Y'' ''LONG'' False) (initHedge, emptyOut)
        [orderOf ''LONG'' (tradeExecution ''e1'' ''o1'' ''Y'' ''Buy'' (1 / 200) 100 0 0 0 ''positionSide:LONG''),
         orderOf ''LONG'' (tradeExecution ''e2'' ''o2'' ''Y'' ''Buy'' 1 100 0 0 1 ''positionSide:LONG'')]))) \<and>
   calculateBinancePositionSessions (\<lambda>s. s)
     [tradeExecution ''e1'' ''o1'' ''Y'' ''Buy'' (1 / 200) 100 0 0 0 ''positionSide:LONG'',
      tradeExecution ''e2'' ''o2'' ''Y'' ''Buy'' 1 100 0 0 1 ''positionSide:LONG''] = []"
proof -
  let ?e1 = "tradeExecution ''e1'' ''o1'' ''Y'' ''Buy'' (1 / 200) 100 0 0 0 ''positionSide:LONG''"
  let ?e2 = "tradeExecution ''e2'' ''o2'' ''Y'' ''Buy'' 1 100 0 0 1 ''positionSide:LONG''"
  let ?o1 = "orderOf ''LONG'' ?e1"
  let ?o2 = "orderOf ''LONG'' ?e2"
  let ?step = "processOrder (\<lambda>s. s) ''Y'' ''LONG'' False"
  have f: "side ?e1 = ''Buy''" "side ?e2 = ''Buy''" "lastQty ?e1 = 1 / 200" "lastQty ?e2 = 1"
    "timestamp ?e1 = 0" "timestamp ?e2 = 1"
    by (simp_all add: tradeExecution_def)
  have so: "sortedOrders ''LONG'' [?e1, ?e2] = [?o1, ?o2]"
    by (simp add: sortedOrders_def orderMap_def sortBy_def byOrderTimestamp_def order_defs)
  have s1: "foldl ?step (initHedge, emptyOut) [?o1] =
        (\<lparr>hRunningPosition = 1 / 200, sessionOrders = [?o1], hSessionStartTime = None,
          lastOrderTime = 0\<rparr>, emptyOut)"
    by (simp add: processOrder_def checkGap_def gapFires_def timeSinceLastOrder_def applyOrder_def
        checkEndB_def initHedge_def getPositionDelta_def isBinancePositionClosed_def
        BINANCE_POSITION_TOLERANCE_def BINANCE_SESSION_GAP_MS_def orderOf_fields f Let_def)
  have "foldl ?step (initHedge, emptyOut) [?o1, ?o2] =
        ?step (foldl ?step (initHedge, emptyOut) [?o1]) ?o2"
    by simp
  also have "\<dots> = ?step (\<lparr>hRunningPosition = 1 / 200, sessionOrders = [?o1],
        hSessionStartTime = None, lastOrderTime = 0\<rparr>, emptyOut) ?o2"
    by (simp only: s1)
  also have "\<dots> = (\<lparr>hRunningPosition = 201 / 200, sessionOrders = [?o1, ?o2],
        hSessionStartTime = None, lastOrderTime = 1\<rparr>, emptyOut)"
    by (simp add: processOrder_def checkGap_def gapFires_def timeSinceLastOrder_def applyOrder_def
        checkEndB_def getPositionDelta_def isBinancePositionClosed_def
        BINANCE_POSITION_TOLERANCE_def BINANCE_SESSION_GAP_MS_def orderOf_fields f Let_def)
  finally have s2: "foldl ?step (initHedge, emptyOut) [?o1, ?o2] =
        (\<lparr>hRunningPosition = 201 / 200, sessionOrders = [?o1, ?o2], hSessionStartTime = None,
          lastOrderTime = 1\<rparr>, emptyOut)" .
  have k: "executionsByKey (filter isTradeExecution [?e1, ?e2]) = [(''Y:LONG'', [?e1, ?e2])]"
    by (simp add: executionsByKey_def groups_of_Y isTradeExecution_def f)
       (simp add: tradeExecution_def)
  have "processKey (\<lambda>s. s) emptyOut (''Y:LONG'', [?e1, ?e2]) =
        finishKey (\<lambda>s. s) ''Y'' ''LONG'' False (foldl ?step (initHedge, emptyOut) [?o1, ?o2])"
    by (simp add: processKey_def parse_tags so processOrders_def)
  also have "\<dots> = emptyOut"
    by (simp only: s2) (simp add: finishKey_def closeSessionB_def)
  finally have pk: "processKey (\<lambda>s. s) emptyOut (''Y:LONG'', [?e1, ?e2]) = emptyOut" .
  have c: "calculateBinancePositionSessions (\<lambda>s. s) [?e1, ?e2] = []"
    unfolding calculateBinancePositionSessions_def k
    by (simp add: pk) (simp add: sortBy_def emptyOut_def)
  have b1: "isBinancePositionClosed (hRunningPosition (fst (foldl ?step (initHedge, emptyOut) [?o1])))"
    by (simp only: s1) (simp add: isBinancePositionClosed_def BINANCE_POSITION_TOLERANCE_def)
  have b2: "\<not> isBinancePositionClosed (hRunningPosition (fst (foldl ?step (initHedge, emptyOut) [?o1, ?o2])))"
    by (simp only: s2) (simp add: isBinancePositionClosed_def BINANCE_POSITION_TOLERANCE_def)
  from so b1 b2 c show ?thesis by (intro conjI)
qed

end
